theory Spec2Isabelle
  imports Complex_Main
begin

section \<open>Python values and errors\<close>

text \<open>
  The exceptions of the modelled paths. \<open>TypeError\<close> is what Python raises for
  \<^verbatim>\<open>None * 2\<close>, for \<^verbatim>\<open>set(5)\<close> and for an unhashable set element;
  \<open>CypherSyntaxError\<close> is what the graph driver raises for a query text the store
  cannot parse; \<open>ExternalServiceError\<close> stands for any other exception raised by an
  external collaborator (the embedding endpoint) that the calling code does not catch.
\<close>

datatype py_error = TypeError | CypherSyntaxError | ExternalServiceError

text \<open>\<^verbatim>\<open>a or b\<close> on an optional integer: \<open>None\<close> and \<open>0\<close> are both falsy.\<close>

definition py_or :: "int option \<Rightarrow> int \<Rightarrow> int" where
  "py_or a b = (case a of None \<Rightarrow> b | Some n \<Rightarrow> if n = 0 then b else n)"

text \<open>\<^verbatim>\<open>a * 2\<close> on an optional integer: \<open>None * 2\<close> raises \<open>TypeError\<close>.\<close>

definition py_mul :: "int option \<Rightarrow> int \<Rightarrow> py_error + int" where
  "py_mul a b = (case a of None \<Rightarrow> Inl TypeError | Some n \<Rightarrow> Inr (n * b))"

text \<open>The slice \<^verbatim>\<open>xs[:n]\<close>: a negative bound counts from the end.\<close>

definition py_slice_to :: "int \<Rightarrow> 'a list \<Rightarrow> 'a list" where
  "py_slice_to n xs =
     (if n < 0 then take (nat (int (length xs) + n)) xs else take (nat n) xs)"

section \<open>Retrieval: \<^verbatim>\<open>services/rag_service.py\<close>\<close>

subsection \<open>Data\<close>

text \<open>
  One row of \<^verbatim>\<open>document_chunks dc JOIN documents d\<close>, with the columns the two
  queries read. The array columns \<^verbatim>\<open>tags\<close> and \<^verbatim>\<open>team_access\<close> default to the empty
  list; \<^verbatim>\<open>embedding\<close> is nullable.
\<close>

record chunk_row =
  row_id :: string
  row_content :: string
  row_document_id :: string
  row_document_title :: string
  row_mime_type :: string
  row_tags :: "string list"
  row_team_access :: "string list"
  row_is_public :: bool
  row_embedding :: "real list option"

text \<open>
  The chunk store and the operators the queries call on it: the embedding endpoint behind
  \<^verbatim>\<open>llm_service.get_embeddings([query])\<close> (which raises on failure), pgvector's cosine
  distance \<^verbatim>\<open><=>\<close>, and PostgreSQL's \<^verbatim>\<open>similarity\<close> and \<^verbatim>\<open>ILIKE\<close>. They are
  external to the repository and are parameters of the model.
\<close>

record chunk_store =
  rows :: "chunk_row list"
  get_embeddings :: "string \<Rightarrow> py_error + real list list"
  cosine_distance :: "real list \<Rightarrow> real list \<Rightarrow> real"
  trgm_similarity :: "string \<Rightarrow> string \<Rightarrow> real"
  ilike :: "string \<Rightarrow> string \<Rightarrow> bool"

text \<open>
  A result dictionary. Both sub-queries build it with the same keys; \<^verbatim>\<open>search_type\<close> is
  absent until the merge sets it. The keys \<^verbatim>\<open>chunk_index\<close>, \<^verbatim>\<open>metadata\<close>,
  \<^verbatim>\<open>filename\<close> and \<^verbatim>\<open>mime_type\<close> are carried along and never read by the merge; they are
  left out. The key \<^verbatim>\<open>similarity\<close> is always present, so the default of
  \<^verbatim>\<open>x.get("similarity", 0)\<close> is never taken. Similarities are modelled as reals: the
  ordering of floats without NaN.
\<close>

record search_result =
  chunk_id :: string
  content :: string
  document_id :: string
  document_title :: string
  similarity :: real
  search_type :: "string option"

text \<open>The \<^verbatim>\<open>filters\<close> dictionary: each of the three keys the code looks for may be absent.\<close>

record filters =
  filter_document_type :: "string option"
  filter_tags :: "string list option"
  filter_team :: "string option"

text \<open>\<^verbatim>\<open>RAGService.__init__\<close>: the two configured settings.\<close>

record rag_service =
  self_top_k :: int
  self_similarity_threshold :: real

definition settings_rag_service :: rag_service where
  "settings_rag_service = \<lparr>self_top_k = 5, self_similarity_threshold = 0.7\<rparr>"

subsection \<open>Filter conditions\<close>

text \<open>
  The three SQL fragments the code appends to \<^verbatim>\<open>filter_conditions\<close>, and what each means
  on a row: \<^verbatim>\<open>d.mime_type = :mime_type\<close>, \<^verbatim>\<open>d.tags && :tags\<close> (array overlap) and
  \<^verbatim>\<open>(:team = ANY(d.team_access) OR d.is_public = true)\<close>.
\<close>

datatype sql_condition = MimeTypeEq string | TagsOverlap "string list" | TeamAccess string

fun holds :: "chunk_row \<Rightarrow> sql_condition \<Rightarrow> bool" where
  "holds r (MimeTypeEq m) = (row_mime_type r = m)"
| "holds r (TagsOverlap ts) = list_ex (\<lambda>t. t \<in> set (row_tags r)) ts"
| "holds r (TeamAccess t) = (t \<in> set (row_team_access r) \<or> row_is_public r)"

text \<open>\<^verbatim>\<open>where_clause = "AND " + " AND ".join(filter_conditions)\<close>: the conjunction.\<close>

definition where_clause :: "sql_condition list \<Rightarrow> chunk_row \<Rightarrow> bool" where
  "where_clause filter_conditions r = list_all (holds r) filter_conditions"

text \<open>
  The filter block of \<^verbatim>\<open>search_documents\<close> (lines 43 to 56). \<^verbatim>\<open>if filters:\<close> skips
  \<open>None\<close> and the empty dictionary; the empty dictionary has none of the keys, so it
  yields no condition either way.
\<close>

definition search_documents_filter_conditions :: "filters option \<Rightarrow> sql_condition list" where
  "search_documents_filter_conditions fs =
     (case fs of
        None \<Rightarrow> []
      | Some f \<Rightarrow>
          (case filter_document_type f of None \<Rightarrow> [] | Some m \<Rightarrow> [MimeTypeEq m]) @
          (case filter_tags f of None \<Rightarrow> [] | Some ts \<Rightarrow> [TagsOverlap ts]) @
          (case filter_team f of None \<Rightarrow> [] | Some t \<Rightarrow> [TeamAccess t]))"

text \<open>The filter block of \<^verbatim>\<open>keyword_search\<close> (lines 152 to 162): it has no \<^verbatim>\<open>team\<close> branch.\<close>

definition keyword_search_filter_conditions :: "filters option \<Rightarrow> sql_condition list" where
  "keyword_search_filter_conditions fs =
     (case fs of
        None \<Rightarrow> []
      | Some f \<Rightarrow>
          (case filter_document_type f of None \<Rightarrow> [] | Some m \<Rightarrow> [MimeTypeEq m]) @
          (case filter_tags f of None \<Rightarrow> [] | Some ts \<Rightarrow> [TagsOverlap ts]))"

subsection \<open>The two sub-queries\<close>

text \<open>
  \<^verbatim>\<open>LIMIT :limit\<close>: the limit is a 64-bit integer. PostgreSQL rejects a negative limit
  and the driver rejects a value that does not fit; either exception is caught by the
  \<^verbatim>\<open>except Exception\<close> of the sub-query, which then returns the empty list.
\<close>

definition sql_limit :: "int \<Rightarrow> 'a list \<Rightarrow> 'a list" where
  "sql_limit n xs = (if n < 0 \<or> 2 ^ 63 \<le> n then [] else take (nat n) xs)"

definition vector_document :: "chunk_row \<times> real \<Rightarrow> search_result" where
  "vector_document p =
     \<lparr>chunk_id = row_id (fst p), content = row_content (fst p),
      document_id = row_document_id (fst p), document_title = row_document_title (fst p),
      similarity = 1 - snd p, search_type = None\<rparr>"

text \<open>
  \<^verbatim>\<open>search_documents\<close>: rows with an embedding whose similarity \<open>1 - distance\<close> exceeds
  the threshold and that pass the filter conditions, by ascending distance, cut at
  \<^verbatim>\<open>top_k or self.top_k\<close>. An exception of the embedding call is not caught here.
\<close>

definition search_documents ::
  "rag_service \<Rightarrow> chunk_store \<Rightarrow> string \<Rightarrow> int option \<Rightarrow> filters option
     \<Rightarrow> py_error + search_result list" where
  "search_documents self db query top_k fs =
     (case get_embeddings db query of
        Inl e \<Rightarrow> Inl e
      | Inr embeddings \<Rightarrow>
          if embeddings = [] \<or> hd embeddings = [] then Inr []
          else
            let query_embedding = hd embeddings;
                limit = py_or top_k (self_top_k self);
                filter_conditions = search_documents_filter_conditions fs;
                matching = List.map_filter
                  (\<lambda>r. case row_embedding r of
                          None \<Rightarrow> None
                        | Some e \<Rightarrow>
                            let d = cosine_distance db e query_embedding
                            in if 1 - d > self_similarity_threshold self
                                  \<and> where_clause filter_conditions r
                               then Some (r, d) else None)
                  (rows db)
            in Inr (map vector_document (sql_limit limit (sort_key snd matching))))"

definition keyword_document :: "chunk_row \<times> real \<Rightarrow> search_result" where
  "keyword_document p =
     \<lparr>chunk_id = row_id (fst p), content = row_content (fst p),
      document_id = row_document_id (fst p), document_title = row_document_title (fst p),
      similarity = (if snd p = 0 then 0.5 else snd p), search_type = None\<rparr>"

text \<open>
  \<^verbatim>\<open>keyword_search\<close>: rows whose content matches \<^verbatim>\<open>ILIKE '%query%'\<close> and that pass the
  filter conditions, by descending \<^verbatim>\<open>similarity(dc.content, :query)\<close>, cut at
  \<^verbatim>\<open>top_k or self.top_k\<close>. A falsy score becomes \<open>0.5\<close>.
\<close>

definition keyword_search ::
  "rag_service \<Rightarrow> chunk_store \<Rightarrow> string \<Rightarrow> int option \<Rightarrow> filters option
     \<Rightarrow> search_result list" where
  "keyword_search self db query top_k fs =
     (let pattern = ''%'' @ query @ ''%'';
          limit = py_or top_k (self_top_k self);
          filter_conditions = keyword_search_filter_conditions fs;
          matching = filter
            (\<lambda>r. ilike db (row_content r) pattern \<and> where_clause filter_conditions r)
            (rows db);
          scored = map (\<lambda>r. (r, trgm_similarity db (row_content r) pattern)) matching
      in map keyword_document (sql_limit limit (sort_key (\<lambda>p. - snd p) scored)))"

subsection \<open>The merge of \<^verbatim>\<open>hybrid_search\<close>\<close>

text \<open>
  One of the two \<^verbatim>\<open>for result in ...\<close> loops: the state is \<^verbatim>\<open>seen_ids\<close> and
  \<^verbatim>\<open>combined_results\<close>; a result whose id was not seen is tagged and appended.
\<close>

fun add_results ::
  "string \<Rightarrow> search_result list \<Rightarrow> string set \<times> search_result list
     \<Rightarrow> string set \<times> search_result list" where
  "add_results ty [] st = st"
| "add_results ty (result # rest) (seen_ids, combined_results) =
     (if chunk_id result \<notin> seen_ids
      then add_results ty rest
             (insert (chunk_id result) seen_ids,
              combined_results @ [result\<lparr>search_type := Some ty\<rparr>])
      else add_results ty rest (seen_ids, combined_results))"

text \<open>Lines 122 to 137: vector results first, keyword results second.\<close>

definition combine_results :: "search_result list \<Rightarrow> search_result list \<Rightarrow> search_result list" where
  "combine_results vector_results keyword_results =
     snd (add_results ''keyword'' keyword_results
            (add_results ''vector'' vector_results ({}, [])))"

text \<open>
  Lines 139 to 141. \<^verbatim>\<open>list.sort(key, reverse=True)\<close> is stable, also when reversed:
  it is the stable sort by the negated key. The cut is \<^verbatim>\<open>[:top_k or self.top_k]\<close>.
\<close>

definition hybrid_merge ::
  "rag_service \<Rightarrow> int option \<Rightarrow> search_result list \<Rightarrow> search_result list
     \<Rightarrow> search_result list" where
  "hybrid_merge self top_k vector_results keyword_results =
     py_slice_to (py_or top_k (self_top_k self))
       (sort_key (\<lambda>x. - similarity x) (combine_results vector_results keyword_results))"

text \<open>
  \<^verbatim>\<open>hybrid_search\<close>: \<^verbatim>\<open>top_k * 2\<close> is evaluated first, on the optional value as given.
\<close>

definition hybrid_search ::
  "rag_service \<Rightarrow> chunk_store \<Rightarrow> string \<Rightarrow> int option \<Rightarrow> filters option
     \<Rightarrow> py_error + search_result list" where
  "hybrid_search self db query top_k fs =
     (case py_mul top_k 2 of
        Inl e \<Rightarrow> Inl e
      | Inr k2 \<Rightarrow>
          (case search_documents self db query (Some k2) fs of
             Inl e \<Rightarrow> Inl e
           | Inr vector_results \<Rightarrow>
               let keyword_results = keyword_search self db query (Some k2) fs
               in Inr (hybrid_merge self top_k vector_results keyword_results)))"

text \<open>
  \<^verbatim>\<open>generate_with_context\<close>, lines 223 to 242: the retrieval and the numbered source
  list. \<^verbatim>\<open>top_k\<close> and \<^verbatim>\<open>filters\<close> are handed to \<^verbatim>\<open>hybrid_search\<close> as received; the
  prompt text and the completion call that follow are not modelled.
\<close>

record source =
  source_index :: nat
  source_document_id :: string
  source_document_title :: string
  source_chunk_id :: string
  source_similarity :: real
  source_search_type :: string

definition make_source :: "nat \<times> search_result \<Rightarrow> source" where
  "make_source p =
     \<lparr>source_index = fst p, source_document_id = document_id (snd p),
      source_document_title = document_title (snd p), source_chunk_id = chunk_id (snd p),
      source_similarity = similarity (snd p),
      source_search_type = (case search_type (snd p) of None \<Rightarrow> ''vector'' | Some ty \<Rightarrow> ty)\<rparr>"

definition generate_with_context_sources ::
  "rag_service \<Rightarrow> chunk_store \<Rightarrow> string \<Rightarrow> int option \<Rightarrow> filters option
     \<Rightarrow> py_error + source list" where
  "generate_with_context_sources self db query top_k fs =
     (case hybrid_search self db query top_k fs of
        Inl e \<Rightarrow> Inl e
      | Inr relevant_docs \<Rightarrow>
          Inr (map make_source (zip [1 ..< Suc (length relevant_docs)] relevant_docs)))"

section \<open>Persistent memory: \<^verbatim>\<open>services/memory_service.py\<close>\<close>

subsection \<open>JSON values and dictionaries\<close>

text \<open>
  The JSON-shaped columns hold dictionaries and lists of free-form values. The values are
  null, integers, strings and lists of values. Booleans and floats are left out, because
  Python's \<^verbatim>\<open>==\<close> identifies \<^verbatim>\<open>True\<close> with \<^verbatim>\<open>1\<close> and \<^verbatim>\<open>1.0\<close> with \<^verbatim>\<open>1\<close>;
  nested dictionaries are left out, because Python compares them without regard to key
  order. On the values kept, \<^verbatim>\<open>==\<close> is equality of the datatype.

  A dictionary is an association list in insertion order, with distinct keys.
\<close>

datatype jvalue = JNull | JNum int | JStr string | JList "jvalue list"

type_synonym pydict = "(string \<times> jvalue) list"

text \<open>\<^verbatim>\<open>d.get(k)\<close>: \<open>None\<close> when the key is absent.\<close>

definition dict_get :: "pydict \<Rightarrow> string \<Rightarrow> jvalue" where
  "dict_get d k = (case map_of d k of None \<Rightarrow> JNull | Some v \<Rightarrow> v)"

text \<open>\<^verbatim>\<open>d[k] = v\<close>: an existing key keeps its place, a new key goes to the end.\<close>

fun dict_set :: "pydict \<Rightarrow> string \<Rightarrow> jvalue \<Rightarrow> pydict" where
  "dict_set [] k v = [(k, v)]"
| "dict_set ((k', v') # d) k v =
     (if k' = k then (k, v) # d else (k', v') # dict_set d k v)"

text \<open>\<^verbatim>\<open>d.update(other)\<close>: the items of \<open>other\<close> are stored in their order.\<close>

definition dict_update :: "pydict \<Rightarrow> pydict \<Rightarrow> pydict" where
  "dict_update d other = foldl (\<lambda>acc kv. dict_set acc (fst kv) (snd kv)) d other"

text \<open>
  \<^verbatim>\<open>if not x: x = []\<close> (or \<^verbatim>\<open>{}\<close>) on a nullable JSON column: \<open>None\<close> and the empty
  value both become the empty value.
\<close>

definition or_empty :: "'a list option \<Rightarrow> 'a list" where
  "or_empty x = (case x of None \<Rightarrow> [] | Some xs \<Rightarrow> xs)"

text \<open>The slice \<^verbatim>\<open>xs[-n:]\<close> for a positive \<open>n\<close>: the last \<open>n\<close> elements.\<close>

definition py_last_n :: "nat \<Rightarrow> 'a list \<Rightarrow> 'a list" where
  "py_last_n n xs = drop (length xs - n) xs"

text \<open>
  What the Python runtime decides and the code does not: the iteration order of
  \<^verbatim>\<open>list(set(...))\<close> (a function of the elements inserted, in insertion order), the text
  of \<^verbatim>\<open>str(v)\<close> for a value that is neither a string nor \<open>None\<close>, of
  \<^verbatim>\<open>json.dumps(d)\<close> and of \<^verbatim>\<open>datetime.isoformat()\<close>. They are parameters.
\<close>

type_synonym timestamp = nat

record py_runtime =
  list_of_set :: "jvalue list \<Rightarrow> jvalue list"
  list_of_str_set :: "string list \<Rightarrow> string list"
  repr :: "jvalue \<Rightarrow> string"
  json_dumps :: "pydict \<Rightarrow> string"
  isoformat :: "timestamp \<Rightarrow> string"

text \<open>The law every iteration order obeys: each element of the set once.\<close>

definition set_order_ok :: "('a list \<Rightarrow> 'a list) \<Rightarrow> bool" where
  "set_order_ok f = (\<forall>xs. set (f xs) = set xs \<and> distinct (f xs))"

definition py_str :: "py_runtime \<Rightarrow> jvalue \<Rightarrow> string" where
  "py_str rt v = (case v of JStr s \<Rightarrow> s | JNull \<Rightarrow> ''None'' | _ \<Rightarrow> repr rt v)"

text \<open>
  \<^verbatim>\<open>set(v)\<close>: the elements in the order they are inserted. A list must hold hashable
  elements, a string gives its characters, \<open>None\<close> and integers are not iterable.
\<close>

fun hashable :: "jvalue \<Rightarrow> bool" where
  "hashable (JList xs) = False"
| "hashable v = True"

fun py_set :: "jvalue \<Rightarrow> py_error + jvalue list" where
  "py_set (JList xs) = (if list_all hashable xs then Inr xs else Inl TypeError)"
| "py_set (JStr s) = Inr (map (\<lambda>c. JStr [c]) s)"
| "py_set v = Inl TypeError"

subsection \<open>Records of \<^verbatim>\<open>models/user_memory.py\<close>\<close>

type_synonym user_id = string

text \<open>\<^verbatim>\<open>UserMemory\<close>: the columns the service writes. JSON columns are nullable.\<close>

record user_memory =
  employee_facts :: "pydict option"
  team_info :: "pydict option"
  active_projects :: "pydict list option"
  project_history :: "pydict list option"
  conversation_summaries :: "pydict list option"
  domain_expertise :: "pydict option"
  frequent_topics :: "string list option"
  total_messages :: int
  last_interaction :: "timestamp option"
  updated_at :: timestamp

text \<open>\<^verbatim>\<open>MemoryEntry\<close>, without the three columns of its key.\<close>

record memory_entry =
  entry_value :: string
  entry_source_conversation_id :: "string option"
  entry_confidence :: int
  entry_tags :: "string list"
  entry_metadata :: pydict
  entry_updated_at :: timestamp

text \<open>\<^verbatim>\<open>ConversationContext\<close>, without the two columns of its key.\<close>

record conversation_context =
  context_type :: string
  title :: string
  conversation_ids :: "string list option"
  key_facts :: "string list option"
  decisions_made :: "string list option"
  action_items :: "string list option"
  last_conversation_at :: "timestamp option"
  context_updated_at :: timestamp


text \<open>
  The three tables. Each is read with \<^verbatim>\<open>scalar_one_or_none\<close> on its key and written
  only by the service functions below, which insert a row only when that read found none:
  a table is a map from the key to the row, and the map holds what is stored, which is
  what \<^verbatim>\<open>db.refresh\<close> reads back after every commit.
\<close>

record database =
  user_memories :: "user_id \<rightharpoonup> user_memory"
  memory_entries :: "user_id \<times> string \<times> string \<rightharpoonup> memory_entry"
  conversation_contexts :: "user_id \<times> string \<rightharpoonup> conversation_context"

definition empty_database :: database where
  "empty_database =
     \<lparr>user_memories = Map.empty, memory_entries = Map.empty,
      conversation_contexts = Map.empty\<rparr>"

subsection \<open>Attributes of a loaded row\<close>

text \<open>
  The JSON columns are declared \<^verbatim>\<open>Column(JSON, default=...)\<close>, with no mutation tracking.
  The session learns of a change to such a column only through an assignment to the
  attribute: the first assignment since the load records the value it replaces. At the
  commit a column is written when it was assigned and its value differs from that recorded
  value; a change made in place (\<^verbatim>\<open>append\<close>, \<^verbatim>\<open>extend\<close>, \<^verbatim>\<open>remove\<close>, \<^verbatim>\<open>update\<close>,
  \<^verbatim>\<open>d[k] = v\<close>) to the loaded value is not seen, and \<^verbatim>\<open>db.refresh\<close> brings the stored
  value back.

  An attribute is the stored value, the value the instance holds, and the value the first
  assignment replaced, if there was an assignment. The replaced value is the loaded object,
  with the changes made in place before the assignment.
\<close>

record 'a attribute =
  stored :: 'a
  current :: 'a
  committed :: "'a option"

definition loaded :: "'a \<Rightarrow> 'a attribute" where
  "loaded v = \<lparr>stored = v, current = v, committed = None\<rparr>"

definition in_place :: "('a \<Rightarrow> 'a) \<Rightarrow> 'a attribute \<Rightarrow> 'a attribute" where
  "in_place f a = a\<lparr>current := f (current a)\<rparr>"

definition assign :: "'a \<Rightarrow> 'a attribute \<Rightarrow> 'a attribute" where
  "assign v a =
     a\<lparr>current := v,
       committed := (case committed a of None \<Rightarrow> Some (current a) | Some old \<Rightarrow> Some old)\<rparr>"

text \<open>The value of the column in the row after commit and refresh.\<close>

definition flush :: "'a attribute \<Rightarrow> 'a" where
  "flush a =
     (case committed a of
        None \<Rightarrow> stored a
      | Some old \<Rightarrow> if current a = old then stored a else current a)"

text \<open>\<^verbatim>\<open>if not memory.x: memory.x = []\<close> (or \<^verbatim>\<open>{}\<close>): an assignment on a falsy column.\<close>

definition assign_empty_if_falsy :: "'b list option attribute \<Rightarrow> 'b list option attribute" where
  "assign_empty_if_falsy a = (if or_empty (current a) = [] then assign (Some []) a else a)"

text \<open>\<^verbatim>\<open>memory.x.append(v)\<close> and \<^verbatim>\<open>memory.x.extend(vs)\<close>: in place.\<close>

definition list_extend :: "'b list \<Rightarrow> 'b list option attribute \<Rightarrow> 'b list option attribute" where
  "list_extend vs a = in_place (\<lambda>x. Some (or_empty x @ vs)) a"

subsection \<open>The profile store\<close>

text \<open>
  Every service function reads the clock with \<^verbatim>\<open>datetime.utcnow()\<close>; the reading is the
  argument \<open>now\<close>, one per call. A function returns the database after its commit and
  refresh; the record it returns in Python is the row stored there.

  \<^verbatim>\<open>UserMemory(user_id=user_id)\<close> after commit and refresh: the column defaults.
\<close>

definition new_user_memory :: "timestamp \<Rightarrow> user_memory" where
  "new_user_memory now =
     \<lparr>employee_facts = Some [], team_info = Some [], active_projects = Some [],
      project_history = Some [], conversation_summaries = Some [],
      domain_expertise = Some [], frequent_topics = Some [], total_messages = 0,
      last_interaction = None, updated_at = now\<rparr>"

definition get_or_create_user_memory ::
  "database \<Rightarrow> user_id \<Rightarrow> timestamp \<Rightarrow> user_memory \<times> database" where
  "get_or_create_user_memory db uid now =
     (case user_memories db uid of
        Some memory \<Rightarrow> (memory, db)
      | None \<Rightarrow>
          (new_user_memory now,
           db\<lparr>user_memories := (user_memories db)(uid \<mapsto> new_user_memory now)\<rparr>))"

text \<open>The profile row as the commit leaves it.\<close>

definition commit_memory :: "database \<Rightarrow> user_id \<Rightarrow> user_memory \<Rightarrow> database" where
  "commit_memory db uid memory = db\<lparr>user_memories := (user_memories db)(uid \<mapsto> memory)\<rparr>"

text \<open>
  \<^verbatim>\<open>add_memory_entry\<close>: an existing row for the key has its value and confidence
  replaced, its tags united with the given ones and its metadata overlaid, all by
  assignment to the attribute; otherwise a row is inserted.
\<close>

definition add_memory_entry ::
  "py_runtime \<Rightarrow> database \<Rightarrow> user_id \<Rightarrow> string \<Rightarrow> string \<Rightarrow> string \<Rightarrow> string option \<Rightarrow> int
     \<Rightarrow> string list option \<Rightarrow> pydict option \<Rightarrow> timestamp \<Rightarrow> database" where
  "add_memory_entry rt db uid category key val source_conversation_id conf tags metadata now =
     (case memory_entries db (uid, category, key) of
        Some existing \<Rightarrow>
          let e1 = existing\<lparr>entry_value := val, entry_confidence := conf,
                            entry_updated_at := now\<rparr>;
              e2 = (if or_empty tags \<noteq> []
                    then e1\<lparr>entry_tags :=
                              list_of_str_set rt (entry_tags existing @ or_empty tags)\<rparr>
                    else e1);
              e3 = (if or_empty metadata \<noteq> []
                    then e2\<lparr>entry_metadata :=
                              dict_update (entry_metadata existing) (or_empty metadata)\<rparr>
                    else e2)
          in db\<lparr>memory_entries := (memory_entries db)((uid, category, key) \<mapsto> e3)\<rparr>
      | None \<Rightarrow>
          db\<lparr>memory_entries := (memory_entries db)((uid, category, key) \<mapsto>
               \<lparr>entry_value = val, entry_source_conversation_id = source_conversation_id,
                entry_confidence = conf, entry_tags = or_empty tags,
                entry_metadata = or_empty metadata, entry_updated_at = now\<rparr>)\<rparr>)"

text \<open>
  \<^verbatim>\<open>update_employee_facts\<close>: \<^verbatim>\<open>memory.employee_facts.update(facts)\<close> is in place; then
  every fact gets a memory entry of category \<^verbatim>\<open>employee\<close>.
\<close>

definition update_employee_facts ::
  "py_runtime \<Rightarrow> database \<Rightarrow> user_id \<Rightarrow> pydict \<Rightarrow> timestamp \<Rightarrow> database" where
  "update_employee_facts rt db uid facts now =
     (let (memory, db1) = get_or_create_user_memory db uid now;
          facts1 = in_place (\<lambda>x. Some (dict_update (or_empty x) facts))
                     (assign_empty_if_falsy (loaded (employee_facts memory)));
          memory1 = memory\<lparr>employee_facts := flush facts1, updated_at := now\<rparr>;
          db2 = commit_memory db1 uid memory1
      in foldl (\<lambda>d kv. add_memory_entry rt d uid ''employee'' (fst kv) (py_str rt (snd kv))
                          None 100 (Some [''employee'', ''profile'']) None now)
           db2 facts)"

text \<open>\<^verbatim>\<open>update_team_info\<close>: the column is assigned the given dictionary.\<close>

definition update_team_info ::
  "database \<Rightarrow> user_id \<Rightarrow> pydict \<Rightarrow> timestamp \<Rightarrow> database" where
  "update_team_info db uid new_team_info now =
     (let (memory, db1) = get_or_create_user_memory db uid now
      in commit_memory db1 uid (memory\<lparr>team_info := Some new_team_info, updated_at := now\<rparr>))"

text \<open>
  \<^verbatim>\<open>existing.update(project)\<close> changes the dictionary \<^verbatim>\<open>next(...)\<close> found, which is the
  first element of the list that satisfies the test.
\<close>

fun update_first :: "('a \<Rightarrow> bool) \<Rightarrow> ('a \<Rightarrow> 'a) \<Rightarrow> 'a list \<Rightarrow> 'a list" where
  "update_first P f [] = []"
| "update_first P f (x # xs) = (if P x then f x # xs else x # update_first P f xs)"

text \<open>
  \<^verbatim>\<open>add_active_project\<close>, lines 97 to 106, as a change of the list of active projects.
  \<^verbatim>\<open>if existing:\<close> is false for \<open>None\<close> and for the empty dictionary.
\<close>

definition upsert_project :: "pydict list \<Rightarrow> pydict \<Rightarrow> pydict list" where
  "upsert_project projects project =
     (let same_name = (\<lambda>p. dict_get p ''name'' = dict_get project ''name'')
      in case find same_name projects of
           None \<Rightarrow> projects @ [project]
         | Some existing \<Rightarrow>
             if existing \<noteq> []
             then update_first same_name (\<lambda>p. dict_update p project) projects
             else projects @ [project])"

text \<open>
  \<^verbatim>\<open>add_active_project\<close>: both \<^verbatim>\<open>existing.update(project)\<close> and
  \<^verbatim>\<open>memory.active_projects.append(project)\<close> are in place. After the commit and refresh
  the memory entry is written, on both branches.
\<close>

definition add_active_project ::
  "py_runtime \<Rightarrow> database \<Rightarrow> user_id \<Rightarrow> pydict \<Rightarrow> timestamp \<Rightarrow> database" where
  "add_active_project rt db uid project now =
     (let (memory, db1) = get_or_create_user_memory db uid now;
          projects1 = in_place (\<lambda>x. Some (upsert_project (or_empty x) project))
                        (assign_empty_if_falsy (loaded (active_projects memory)));
          db2 = commit_memory db1 uid
                  (memory\<lparr>active_projects := flush projects1, updated_at := now\<rparr>)
      in add_memory_entry rt db2 uid ''project''
           (''active_project_'' @ py_str rt (dict_get project ''name''))
           (json_dumps rt project) None 100 (Some [''project'', ''active'']) None now)"

text \<open>
  \<^verbatim>\<open>complete_project\<close>: \<^verbatim>\<open>memory.active_projects.remove(project)\<close> and
  \<^verbatim>\<open>memory.project_history.append(project)\<close> are in place; the history is assigned the
  empty list first when it is falsy.
\<close>

definition complete_project ::
  "py_runtime \<Rightarrow> database \<Rightarrow> user_id \<Rightarrow> string \<Rightarrow> pydict \<Rightarrow> timestamp \<Rightarrow> database" where
  "complete_project rt db uid project_name completion_data now =
     (let (memory, db1) = get_or_create_user_memory db uid now;
          projects = assign_empty_if_falsy (loaded (active_projects memory));
          memory1 =
            (case find (\<lambda>p. dict_get p ''name'' = JStr project_name)
                    (or_empty (current projects)) of
               None \<Rightarrow> memory\<lparr>active_projects := flush projects\<rparr>
             | Some project \<Rightarrow>
                 if project \<noteq> []
                 then memory
                   \<lparr>active_projects :=
                      flush (in_place (\<lambda>x. Some (remove1 project (or_empty x))) projects),
                    project_history :=
                      flush (list_extend
                        [dict_set (dict_update project completion_data) ''completed_at''
                           (JStr (isoformat rt now))]
                        (assign_empty_if_falsy (loaded (project_history memory))))\<rparr>
                 else memory\<lparr>active_projects := flush projects\<rparr>)
      in commit_memory db1 uid (memory1\<lparr>updated_at := now\<rparr>))"

text \<open>
  \<^verbatim>\<open>add_conversation_summary\<close>: the append is in place; the cut to the last 50 is an
  assignment.
\<close>

definition add_conversation_summary ::
  "py_runtime \<Rightarrow> database \<Rightarrow> user_id \<Rightarrow> string \<Rightarrow> string \<Rightarrow> pydict option \<Rightarrow> timestamp
     \<Rightarrow> database" where
  "add_conversation_summary rt db uid topic resolution additional_context now =
     (let (memory, db1) = get_or_create_user_memory db uid now;
          summary = dict_update
            [(''topic'', JStr topic), (''resolution'', JStr resolution),
             (''date'', JStr (isoformat rt now))]
            (or_empty additional_context);
          summaries = list_extend [summary]
                        (assign_empty_if_falsy (loaded (conversation_summaries memory)));
          summaries1 =
            (if length (or_empty (current summaries)) > 50
             then assign (Some (py_last_n 50 (or_empty (current summaries)))) summaries
             else summaries)
      in commit_memory db1 uid
           (memory\<lparr>conversation_summaries := flush summaries1, updated_at := now\<rparr>))"

text \<open>
  The loop of \<^verbatim>\<open>update_domain_expertise\<close> over \<^verbatim>\<open>expertise.items()\<close>, as a change of
  the dictionary: a list under a key already present is united with \<^verbatim>\<open>set\<close> of the value
  under the key, anything else is put under the key as given. \<^verbatim>\<open>set(...)\<close> and
  \<^verbatim>\<open>existing.update(value)\<close> raise on what cannot be iterated or hashed.
\<close>

fun merge_expertise :: "py_runtime \<Rightarrow> pydict \<Rightarrow> pydict \<Rightarrow> py_error + pydict" where
  "merge_expertise rt de [] = Inr de"
| "merge_expertise rt de ((key, val) # rest) =
     (case (val, map_of de key) of
        (JList new_items, Some old) \<Rightarrow>
          (case py_set old of
             Inl e \<Rightarrow> Inl e
           | Inr existing \<Rightarrow>
               if list_all hashable new_items
               then merge_expertise rt
                      (dict_set de key (JList (list_of_set rt (existing @ new_items)))) rest
               else Inl TypeError)
      | _ \<Rightarrow> merge_expertise rt (dict_set de key val) rest)"

text \<open>
  \<^verbatim>\<open>update_domain_expertise\<close>: every \<^verbatim>\<open>memory.domain_expertise[key] = ...\<close> of the loop
  is in place.
\<close>

definition update_domain_expertise ::
  "py_runtime \<Rightarrow> database \<Rightarrow> user_id \<Rightarrow> pydict \<Rightarrow> timestamp \<Rightarrow> py_error + database" where
  "update_domain_expertise rt db uid expertise now =
     (let (memory, db1) = get_or_create_user_memory db uid now;
          expertise0 = assign_empty_if_falsy (loaded (domain_expertise memory))
      in case merge_expertise rt (or_empty (current expertise0)) expertise of
           Inl e \<Rightarrow> Inl e
         | Inr de \<Rightarrow>
             Inr (commit_memory db1 uid
                    (memory\<lparr>domain_expertise := flush (in_place (\<lambda>x. Some de) expertise0),
                            updated_at := now\<rparr>)))"

text \<open>
  \<^verbatim>\<open>add_frequent_topic\<close>, lines 228 to 233: a topic not in the list is appended in
  place; a list grown beyond 20 is cut to its last 20 by an assignment.
\<close>

definition append_topic ::
  "string list option attribute \<Rightarrow> string \<Rightarrow> string list option attribute" where
  "append_topic topics topic =
     (if topic \<notin> set (or_empty (current topics))
      then (let appended = list_extend [topic] topics
            in if length (or_empty (current appended)) > 20
               then assign (Some (py_last_n 20 (or_empty (current appended)))) appended
               else appended)
      else topics)"

definition add_frequent_topic ::
  "database \<Rightarrow> user_id \<Rightarrow> string \<Rightarrow> timestamp \<Rightarrow> database" where
  "add_frequent_topic db uid topic now =
     (let (memory, db1) = get_or_create_user_memory db uid now;
          topics1 = append_topic
                      (assign_empty_if_falsy (loaded (frequent_topics memory))) topic
      in commit_memory db1 uid
           (memory\<lparr>frequent_topics := flush topics1, updated_at := now\<rparr>))"

subsection \<open>The conversation context linker\<close>

text \<open>
  \<^verbatim>\<open>ConversationContext(...)\<close> after commit and refresh: the column defaults, the title
  falling back to the key.
\<close>

definition new_conversation_context ::
  "string \<Rightarrow> string \<Rightarrow> string option \<Rightarrow> timestamp \<Rightarrow> conversation_context" where
  "new_conversation_context ctype context_key ttl now =
     \<lparr>context_type = ctype,
      title = (case ttl of None \<Rightarrow> context_key | Some t \<Rightarrow> if t = [] then context_key else t),
      conversation_ids = Some [], key_facts = Some [], decisions_made = Some [],
      action_items = Some [], last_conversation_at = None, context_updated_at = now\<rparr>"

definition get_or_create_conversation_context ::
  "database \<Rightarrow> user_id \<Rightarrow> string \<Rightarrow> string \<Rightarrow> string option \<Rightarrow> timestamp
     \<Rightarrow> conversation_context \<times> database" where
  "get_or_create_conversation_context db uid context_key ctype ttl now =
     (case conversation_contexts db (uid, context_key) of
        Some ctx \<Rightarrow> (ctx, db)
      | None \<Rightarrow>
          (new_conversation_context ctype context_key ttl now,
           db\<lparr>conversation_contexts := (conversation_contexts db)((uid, context_key) \<mapsto>
                new_conversation_context ctype context_key ttl now)\<rparr>))"

text \<open>
  \<^verbatim>\<open>if key_facts: ...\<close>, and the same for decisions and action items: \<open>None\<close> and the
  empty list are skipped; otherwise a falsy column is assigned the empty list, and the
  given items are added by \<^verbatim>\<open>extend\<close>, in place.
\<close>

definition extend_if_given ::
  "string list option \<Rightarrow> string list option \<Rightarrow> string list option attribute" where
  "extend_if_given column given =
     (if or_empty given \<noteq> []
      then list_extend (or_empty given) (assign_empty_if_falsy (loaded column))
      else loaded column)"

text \<open>
  \<^verbatim>\<open>add_conversation_to_context\<close>. The conversation id is a UUID and the list holds
  \<^verbatim>\<open>str(conversation_id)\<close>, which is one-to-one: ids are modelled by that string. The
  id is added by \<^verbatim>\<open>append\<close>, in place; the two timestamps are assigned.
\<close>

definition add_conversation_to_context ::
  "database \<Rightarrow> user_id \<Rightarrow> string \<Rightarrow> string \<Rightarrow> string list option \<Rightarrow> string list option
     \<Rightarrow> string list option \<Rightarrow> timestamp \<Rightarrow> database" where
  "add_conversation_to_context db uid context_key conversation_id new_key_facts decisions
       new_action_items now =
     (let (ctx, db1) =
            get_or_create_conversation_context db uid context_key ''project'' None now;
          ids = assign_empty_if_falsy (loaded (conversation_ids ctx));
          ids1 = (if conversation_id \<notin> set (or_empty (current ids))
                  then list_extend [conversation_id] ids else ids);
          ctx1 = ctx
            \<lparr>conversation_ids := flush ids1,
             key_facts := flush (extend_if_given (key_facts ctx) new_key_facts),
             decisions_made := flush (extend_if_given (decisions_made ctx) decisions),
             action_items := flush (extend_if_given (action_items ctx) new_action_items),
             last_conversation_at := Some now,
             context_updated_at := now\<rparr>
      in db1\<lparr>conversation_contexts := (conversation_contexts db1)((uid, context_key) \<mapsto> ctx1)\<rparr>)"

section \<open>Knowledge graph: \<^verbatim>\<open>services/knowledge_graph_service.py\<close>\<close>

text \<open>
  The Cypher text that \<^verbatim>\<open>get_entity_path\<close> sends (lines 259 to 271):
  \<^verbatim>\<open>MATCH path = shortestPath((source:Entity {id: $source_id})-[*1..$max_depth]-(target:Entity {id: $target_id}))\<close>
  and a \<^verbatim>\<open>RETURN\<close> of the nodes (id, name, type) and the relationship types of the path.
  The pattern has a hop range; its lower bound is written as the literal 1 and its upper
  bound as the parameter \<^verbatim>\<open>$max_depth\<close>.
\<close>

datatype hop_bound = HopLiteral nat | HopParameter string

record path_query =
  min_hops :: hop_bound
  max_hops :: hop_bound

definition entity_path_query :: path_query where
  "entity_path_query = \<lparr>min_hops = HopLiteral 1, max_hops = HopParameter ''max_depth''\<rparr>"

text \<open>One record of the query: the nodes and the relationship types of a path.\<close>

record path_record =
  path_nodes :: "(string \<times> string \<times> string) list"
  path_relationships :: "string list"

text \<open>
  The graph store is external. What the graph holds is a parameter:
  \<open>shortest_paths g s t lo hi\<close> is the answer to the pattern for the entities \<open>s\<close> and
  \<open>t\<close> with the hop range \<open>lo\<close> to \<open>hi\<close>, one record with a shortest path, or no record
  when no path of that many hops connects them. How the store reads the text is Cypher's
  grammar: the bounds of a hop range are integer literals, and a parameter in their place
  is a syntax error, raised for the query before the graph and the parameter values are
  looked at.
\<close>

record graph_store =
  shortest_paths :: "string \<Rightarrow> string \<Rightarrow> nat \<Rightarrow> nat \<Rightarrow> path_record list"

definition session_run ::
  "graph_store \<Rightarrow> path_query \<Rightarrow> string \<Rightarrow> string \<Rightarrow> int \<Rightarrow> py_error + path_record list" where
  "session_run g q source_id target_id max_depth =
     (case (min_hops q, max_hops q) of
        (HopLiteral lo, HopLiteral hi) \<Rightarrow> Inr (shortest_paths g source_id target_id lo hi)
      | _ \<Rightarrow> Inl CypherSyntaxError)"

text \<open>\<^verbatim>\<open>result.single()\<close>: \<open>None\<close> when there is no record, else the first one.\<close>

definition single :: "'a list \<Rightarrow> 'a option" where
  "single records = (case records of [] \<Rightarrow> None | r # _ \<Rightarrow> Some r)"

text \<open>The dictionary \<^verbatim>\<open>{"nodes": ..., "relationships": ...}\<close> that is returned.\<close>

record entity_path =
  nodes :: "(string \<times> string \<times> string) list"
  relationships :: "string list"

text \<open>
  Lines 273 to 286, for any query text: there is no \<^verbatim>\<open>try\<close>, so an exception of the
  store propagates; a record is truthy (it has two fields); without a record the result
  is \<open>None\<close>.
\<close>

definition run_path_query ::
  "graph_store \<Rightarrow> path_query \<Rightarrow> string \<Rightarrow> string \<Rightarrow> int \<Rightarrow> py_error + entity_path option" where
  "run_path_query g q source_id target_id max_depth =
     (case session_run g q source_id target_id max_depth of
        Inl e \<Rightarrow> Inl e
      | Inr records \<Rightarrow>
          (case single records of
             Some record \<Rightarrow>
               Inr (Some \<lparr>nodes = path_nodes record,
                          relationships = path_relationships record\<rparr>)
           | None \<Rightarrow> Inr None))"

text \<open>\<^verbatim>\<open>get_entity_path\<close>: the query it sends is the text above.\<close>

definition get_entity_path ::
  "graph_store \<Rightarrow> string \<Rightarrow> string \<Rightarrow> int \<Rightarrow> py_error + entity_path option" where
  "get_entity_path g source_id target_id max_depth =
     run_path_query g entity_path_query source_id target_id max_depth"

section \<open>Views, call sequences and example data\<close>

text \<open>What one loop of the merge appends, given the ids seen before it.\<close>

fun dedup_tag :: "string \<Rightarrow> string set \<Rightarrow> search_result list \<Rightarrow> search_result list" where
  "dedup_tag ty seen [] = []"
| "dedup_tag ty seen (r # rs) =
     (if chunk_id r \<notin> seen
      then r\<lparr>search_type := Some ty\<rparr> # dedup_tag ty (insert (chunk_id r) seen) rs
      else dedup_tag ty seen rs)"

text \<open>The columns of a user's profile as the service reads them.\<close>

definition topics_of :: "database \<Rightarrow> user_id \<Rightarrow> string list" where
  "topics_of db uid =
     (case user_memories db uid of None \<Rightarrow> [] | Some m \<Rightarrow> or_empty (frequent_topics m))"

definition projects_of :: "database \<Rightarrow> user_id \<Rightarrow> pydict list" where
  "projects_of db uid =
     (case user_memories db uid of None \<Rightarrow> [] | Some m \<Rightarrow> or_empty (active_projects m))"

definition expertise_of :: "database \<Rightarrow> user_id \<Rightarrow> pydict" where
  "expertise_of db uid =
     (case user_memories db uid of None \<Rightarrow> [] | Some m \<Rightarrow> or_empty (domain_expertise m))"

definition team_info_of :: "database \<Rightarrow> user_id \<Rightarrow> pydict" where
  "team_info_of db uid =
     (case user_memories db uid of None \<Rightarrow> [] | Some m \<Rightarrow> or_empty (team_info m))"

text \<open>The columns of a conversation context, empty when there is no such context.\<close>

definition context_column ::
  "(conversation_context \<Rightarrow> string list option) \<Rightarrow> database \<Rightarrow> user_id \<Rightarrow> string
     \<Rightarrow> string list" where
  "context_column col db uid context_key =
     (case conversation_contexts db (uid, context_key) of
        None \<Rightarrow> []
      | Some ctx \<Rightarrow> or_empty (col ctx))"

definition context_last_conversation_at ::
  "database \<Rightarrow> user_id \<Rightarrow> string \<Rightarrow> timestamp option" where
  "context_last_conversation_at db uid context_key =
     (case conversation_contexts db (uid, context_key) of
        None \<Rightarrow> None
      | Some ctx \<Rightarrow> last_conversation_at ctx)"

text \<open>A sequence of \<^verbatim>\<open>add_frequent_topic\<close> calls: user, topic and clock reading of each.\<close>

definition add_frequent_topic_calls ::
  "database \<Rightarrow> (user_id \<times> string \<times> timestamp) list \<Rightarrow> database" where
  "add_frequent_topic_calls db calls =
     foldl (\<lambda>d c. add_frequent_topic d (fst c) (fst (snd c)) (snd (snd c))) db calls"

text \<open>A runtime for the examples: sets are listed in order of first insertion.\<close>

definition example_runtime :: py_runtime where
  "example_runtime =
     \<lparr>list_of_set = remdups, list_of_str_set = remdups, repr = (\<lambda>v. ''?''),
      json_dumps = (\<lambda>d. concat (map fst d)), isoformat = (\<lambda>t. replicate t CHR ''I'')\<rparr>"

text \<open>A graph in which no path connects any two entities.\<close>

definition unconnected_graph :: graph_store where
  "unconnected_graph = \<lparr>shortest_paths = (\<lambda>s t lo hi. [])\<rparr>"

text \<open>The results of the spec's merge example, with the fields the example leaves open empty.\<close>

definition example_result :: "string \<Rightarrow> real \<Rightarrow> string option \<Rightarrow> search_result" where
  "example_result cid sim ty =
     \<lparr>chunk_id = cid, content = [], document_id = [], document_title = [],
      similarity = sim, search_type = ty\<rparr>"

text \<open>
  A store with one chunk, of a document that is not public and is shared with the team
  \<^verbatim>\<open>underwriting\<close> only; every embedding is at distance 0 and every text matches.
\<close>

definition private_row :: chunk_row where
  "private_row =
     \<lparr>row_id = ''c1'', row_content = ''salary bands'', row_document_id = ''d1'',
      row_document_title = ''Compensation'', row_mime_type = ''text/plain'', row_tags = [],
      row_team_access = [''underwriting''], row_is_public = False,
      row_embedding = Some [1]\<rparr>"

definition private_store :: chunk_store where
  "private_store =
     \<lparr>rows = [private_row], get_embeddings = (\<lambda>q. Inr [[1]]),
      cosine_distance = (\<lambda>a b. 0), trgm_similarity = (\<lambda>c q. 0.3),
      ilike = (\<lambda>c p. True)\<rparr>"

definition team_filter :: "string \<Rightarrow> filters" where
  "team_filter t =
     \<lparr>filter_document_type = None, filter_tags = None, filter_team = Some t\<rparr>"

section \<open>The merge of the hybrid search\<close>

lemma add_results_dedup_tag:
  "add_results ty rs (seen, acc) = (seen \<union> chunk_id ` set rs, acc @ dedup_tag ty seen rs)"
  by (induction rs arbitrary: seen acc) auto

lemma dedup_tag_ids: "chunk_id ` set (dedup_tag ty seen rs) = chunk_id ` set rs - seen"
  by (induction rs arbitrary: seen) auto

lemma dedup_tag_distinct: "distinct (map chunk_id (dedup_tag ty seen rs))"
proof (induction rs arbitrary: seen)
  case Nil
  then show ?case by simp
next
  case (Cons r rs)
  have "chunk_id r \<notin> chunk_id ` set (dedup_tag ty (insert (chunk_id r) seen) rs)"
    by (simp add: dedup_tag_ids)
  with Cons show ?case by simp
qed

lemma dedup_tag_origin:
  "x \<in> set (dedup_tag ty seen rs) \<Longrightarrow>
     \<exists>q. find (\<lambda>q. chunk_id q = chunk_id x) rs = Some q \<and> x = q\<lparr>search_type := Some ty\<rparr>"
proof (induction rs arbitrary: seen)
  case Nil
  then show ?case by simp
next
  case (Cons r rs)
  show ?case
  proof (cases "chunk_id r \<in> seen")
    case True
    with Cons.prems have x: "x \<in> set (dedup_tag ty seen rs)" by simp
    then have "chunk_id x \<in> chunk_id ` set rs - seen"
      using dedup_tag_ids[of ty seen rs] by blast
    with True have "chunk_id r \<noteq> chunk_id x" by auto
    with Cons.IH[OF x] show ?thesis by simp
  next
    case False
    with Cons.prems consider "x = r\<lparr>search_type := Some ty\<rparr>"
      | "x \<in> set (dedup_tag ty (insert (chunk_id r) seen) rs)" by auto
    then show ?thesis
    proof cases
      case 1
      then show ?thesis by simp
    next
      case 2
      then have "chunk_id x \<in> chunk_id ` set rs - insert (chunk_id r) seen"
        using dedup_tag_ids[of ty "insert (chunk_id r) seen" rs] by blast
      then have "chunk_id r \<noteq> chunk_id x" by auto
      with Cons.IH[OF 2] show ?thesis by simp
    qed
  qed
qed

lemma combine_results_eq:
  "combine_results vs ks =
     dedup_tag ''vector'' {} vs @ dedup_tag ''keyword'' (chunk_id ` set vs) ks"
  by (simp add: combine_results_def add_results_dedup_tag)

lemma combine_results_ids:
  "chunk_id ` set (combine_results vs ks) = chunk_id ` set vs \<union> chunk_id ` set ks"
  by (auto simp: combine_results_eq image_Un dedup_tag_ids)

lemma combine_results_distinct: "distinct (map chunk_id (combine_results vs ks))"
  using dedup_tag_ids[of "''vector''" "{}" vs]
    dedup_tag_ids[of "''keyword''" "chunk_id ` set vs" ks]
  by (auto simp: combine_results_eq dedup_tag_distinct)

lemma combine_results_origin:
  assumes "x \<in> set (combine_results vs ks)"
  shows "(case find (\<lambda>v. chunk_id v = chunk_id x) vs of
            Some v \<Rightarrow> x = v\<lparr>search_type := Some ''vector''\<rparr>
          | None \<Rightarrow> (\<exists>q. find (\<lambda>q. chunk_id q = chunk_id x) ks = Some q
                        \<and> x = q\<lparr>search_type := Some ''keyword''\<rparr>))"
proof -
  from assms consider "x \<in> set (dedup_tag ''vector'' {} vs)"
    | "x \<in> set (dedup_tag ''keyword'' (chunk_id ` set vs) ks)"
    by (auto simp: combine_results_eq)
  then show ?thesis
  proof cases
    case 1
    from dedup_tag_origin[OF 1] show ?thesis by auto
  next
    case 2
    then have "chunk_id x \<notin> chunk_id ` set vs"
      using dedup_tag_ids[of "''keyword''" "chunk_id ` set vs" ks] by blast
    then have "\<forall>v\<in>set vs. chunk_id v \<noteq> chunk_id x"
      by (metis imageI)
    then have "find (\<lambda>v. chunk_id v = chunk_id x) vs = None"
      by (simp add: find_None_iff)
    with dedup_tag_origin[OF 2] show ?thesis by auto
  qed
qed

lemma sorted_desc_sort_key:
  "sorted_wrt (\<lambda>a b. similarity b \<le> similarity a) (sort_key (\<lambda>x. - similarity x) xs)"
proof -
  have "sorted (map (\<lambda>x. - similarity x) (sort_key (\<lambda>x. - similarity x) xs))"
    by (rule sorted_sort_key)
  then show ?thesis by (simp add: sorted_map)
qed

lemma sorted_wrt_take_prefix: "sorted_wrt P xs \<Longrightarrow> sorted_wrt P (take n xs)"
  by (metis append_take_drop_id sorted_wrt_append)

lemma hybrid_merge_positive:
  "0 < top_k \<Longrightarrow>
     hybrid_merge self (Some top_k) vs ks =
       take (nat top_k) (sort_key (\<lambda>x. - similarity x) (combine_results vs ks))"
  by (simp add: hybrid_merge_def py_or_def py_slice_to_def)

text \<open>
  C1, as stated, at \<open>topK = 0\<close>: \<^verbatim>\<open>top_k or self.top_k\<close> takes the configured default 5
  for the cut, so the merge of the spec's example returns two results, more than
  \<open>topK\<close>.
\<close>

theorem hybrid_merge_top_k_zero_counterexample:
  "\<not> int (length (hybrid_merge settings_rag_service (Some 0)
                     [example_result ''A'' 0.9 None]
                     [example_result ''A'' 0.4 None, example_result ''B'' 0.3 None])) \<le> 0"
  by (simp add: hybrid_merge_def combine_results_def example_result_def py_or_def
      py_slice_to_def settings_rag_service_def)

text \<open>
  C1, amended: for every pair of result lists and every \<open>topK\<close> of at least 1, the merge
  is the first \<open>topK\<close> of the candidates in stable descending order of similarity; it
  has at most \<open>topK\<close> results, no chunk id twice, and similarities in descending order;
  a result whose chunk id occurs among the vector results is the first vector result of
  that id, tagged \<^verbatim>\<open>vector\<close>, and any other result is the first keyword result of its
  id, tagged \<^verbatim>\<open>keyword\<close>; the candidates are exactly the chunk ids of both lists.
\<close>

theorem hybrid_merge_dedup_sort_truncate:
  assumes "0 < top_k"
  shows "hybrid_merge self (Some top_k) vs ks =
           take (nat top_k) (sort_key (\<lambda>x. - similarity x) (combine_results vs ks))
       \<and> int (length (hybrid_merge self (Some top_k) vs ks)) \<le> top_k
       \<and> distinct (map chunk_id (hybrid_merge self (Some top_k) vs ks))
       \<and> sorted_wrt (\<lambda>a b. similarity b \<le> similarity a)
           (hybrid_merge self (Some top_k) vs ks)
       \<and> (\<forall>x \<in> set (hybrid_merge self (Some top_k) vs ks).
             case find (\<lambda>v. chunk_id v = chunk_id x) vs of
               Some v \<Rightarrow> x = v\<lparr>search_type := Some ''vector''\<rparr>
             | None \<Rightarrow> (\<exists>q. find (\<lambda>q. chunk_id q = chunk_id x) ks = Some q
                           \<and> x = q\<lparr>search_type := Some ''keyword''\<rparr>))
       \<and> chunk_id ` set (combine_results vs ks) = chunk_id ` set vs \<union> chunk_id ` set ks"
proof -
  let ?sorted = "sort_key (\<lambda>x. - similarity x) (combine_results vs ks)"
  have eq: "hybrid_merge self (Some top_k) vs ks = take (nat top_k) ?sorted"
    using assms by (rule hybrid_merge_positive)
  have len: "int (length (take (nat top_k) ?sorted)) \<le> top_k"
    using assms by simp
  have "distinct (map chunk_id ?sorted)"
    using combine_results_distinct[of vs ks] by (simp add: distinct_map)
  then have dist: "distinct (map chunk_id (take (nat top_k) ?sorted))"
    by (simp add: take_map[symmetric])
  have srt: "sorted_wrt (\<lambda>a b. similarity b \<le> similarity a) (take (nat top_k) ?sorted)"
    by (rule sorted_wrt_take_prefix) (rule sorted_desc_sort_key)
  have orig: "\<forall>x \<in> set (take (nat top_k) ?sorted).
             case find (\<lambda>v. chunk_id v = chunk_id x) vs of
               Some v \<Rightarrow> x = v\<lparr>search_type := Some ''vector''\<rparr>
             | None \<Rightarrow> (\<exists>q. find (\<lambda>q. chunk_id q = chunk_id x) ks = Some q
                           \<and> x = q\<lparr>search_type := Some ''keyword''\<rparr>)"
  proof
    fix x assume "x \<in> set (take (nat top_k) ?sorted)"
    then have "x \<in> set ?sorted" by (rule in_set_takeD)
    then have "x \<in> set (combine_results vs ks)" by simp
    then show "case find (\<lambda>v. chunk_id v = chunk_id x) vs of
               Some v \<Rightarrow> x = v\<lparr>search_type := Some ''vector''\<rparr>
             | None \<Rightarrow> (\<exists>q. find (\<lambda>q. chunk_id q = chunk_id x) ks = Some q
                           \<and> x = q\<lparr>search_type := Some ''keyword''\<rparr>)"
      by (rule combine_results_origin)
  qed
  show ?thesis
    unfolding eq using len dist srt orig combine_results_ids[of vs ks] by blast
qed

theorem hybrid_merge_dedup_sort_truncate_witness:
  "(0::int) < 2
   \<and> hybrid_merge settings_rag_service (Some 2)
       [example_result ''A'' 0.9 None]
       [example_result ''A'' 0.4 None, example_result ''B'' 0.3 None]
     = [example_result ''A'' 0.9 (Some ''vector''),
        example_result ''B'' 0.3 (Some ''keyword'')]"
proof -
  have h: "(0::int) < 2" by simp
  show ?thesis
    using hybrid_merge_dedup_sort_truncate[OF h, of settings_rag_service
        "[example_result ''A'' 0.9 None]"
        "[example_result ''A'' 0.4 None, example_result ''B'' 0.3 None]"]
    by (simp add: combine_results_def example_result_def)
qed

section \<open>The filters of the two sub-queries\<close>

lemma keyword_conditions_drop_team:
  "keyword_search_filter_conditions fs =
     search_documents_filter_conditions (map_option (\<lambda>f. f\<lparr>filter_team := None\<rparr>) fs)"
  by (simp add: keyword_search_filter_conditions_def search_documents_filter_conditions_def
      split: option.splits)

text \<open>
  C2 fails on the code. With the filter \<^verbatim>\<open>{"team": "claims"}\<close> and a chunk of a document
  that is not public and is shared with another team only, the vector sub-query has the
  team condition and excludes the chunk, the keyword sub-query has no condition at all
  and returns it, and the hybrid search hands it out tagged \<^verbatim>\<open>keyword\<close>.
\<close>

theorem keyword_search_ignores_team_filter:
  "search_documents_filter_conditions (Some (team_filter ''claims'')) = [TeamAccess ''claims'']
   \<and> keyword_search_filter_conditions (Some (team_filter ''claims'')) = []
   \<and> \<not> where_clause (search_documents_filter_conditions (Some (team_filter ''claims'')))
         private_row
   \<and> where_clause (keyword_search_filter_conditions (Some (team_filter ''claims'')))
         private_row
   \<and> search_documents settings_rag_service private_store ''salary'' (Some 5)
         (Some (team_filter ''claims'')) = Inr []
   \<and> map chunk_id (keyword_search settings_rag_service private_store ''salary'' (Some 5)
         (Some (team_filter ''claims''))) = [''c1'']
   \<and> map_sum id (map (\<lambda>r. (chunk_id r, search_type r)))
         (hybrid_search settings_rag_service private_store ''salary'' (Some 5)
            (Some (team_filter ''claims'')))
       = Inr [(''c1'', Some ''keyword'')]"
  by (simp add: search_documents_filter_conditions_def keyword_search_filter_conditions_def
      team_filter_def where_clause_def private_row_def private_store_def
      search_documents_def keyword_search_def hybrid_search_def hybrid_merge_def
      combine_results_def py_mul_def py_or_def py_slice_to_def sql_limit_def
      settings_rag_service_def List.map_filter_def vector_document_def keyword_document_def)

section \<open>The absent \<^verbatim>\<open>top_k\<close>\<close>

text \<open>
  C10: with \<^verbatim>\<open>top_k\<close> absent, \<^verbatim>\<open>hybrid_search\<close> raises \<open>TypeError\<close> at
  \<^verbatim>\<open>top_k * 2\<close>, whatever the store, the query, the filters and the configured default
  are, and so does \<^verbatim>\<open>generate_with_context\<close>, which passes its own absent \<^verbatim>\<open>top_k\<close>
  on; the vector sub-query called alone does fall back to the default.
\<close>

theorem hybrid_search_top_k_none_fails:
  "hybrid_search self db query None fs = Inl TypeError
   \<and> generate_with_context_sources self db query None fs = Inl TypeError
   \<and> py_or None (self_top_k self) = self_top_k self"
  by (simp add: hybrid_search_def generate_with_context_sources_def py_mul_def py_or_def)

section \<open>Team information\<close>

lemma team_info_of_update_team_info:
  "team_info_of (update_team_info db uid' new_team_info now) uid =
     (if uid' = uid then new_team_info else team_info_of db uid)"
  by (simp add: update_team_info_def get_or_create_user_memory_def commit_memory_def
      team_info_of_def new_user_memory_def or_empty_def split: option.splits)

text \<open>
  C6, as stated, fails: a profile whose team information is
  \<^verbatim>\<open>{"manager": "John"}\<close>, updated with the patch \<^verbatim>\<open>{"team": "Data Conversion"}\<close>, has
  lost the key \<^verbatim>\<open>manager\<close>, which the patch does not mention.
\<close>

theorem update_team_info_drops_keys_counterexample:
  "map_of (team_info_of
             (update_team_info empty_database ''u1'' [(''manager'', JStr ''John'')] 1) ''u1'')
          ''manager'' = Some (JStr ''John'')
   \<and> map_of [(''team'', JStr ''Data Conversion'')] ''manager'' = None
   \<and> map_of (team_info_of
               (update_team_info
                  (update_team_info empty_database ''u1'' [(''manager'', JStr ''John'')] 1)
                  ''u1'' [(''team'', JStr ''Data Conversion'')] 2) ''u1'')
            ''manager'' = None"
  by (simp add: team_info_of_update_team_info)

text \<open>
  C6, amended: \<^verbatim>\<open>update_team_info\<close> is last-write-wins for the whole mapping. After an
  update with patch \<open>P\<close> the user's team information is \<open>P\<close> itself: every key of \<open>P\<close>
  maps to the value \<open>P\<close> gives it and no other key is present, whatever was stored
  before; the update time is the time of the call.
\<close>

theorem update_team_info_replaces:
  "team_info_of (update_team_info db uid new_team_info now) uid = new_team_info
   \<and> map_of (team_info_of (update_team_info db uid new_team_info now) uid) k
       = map_of new_team_info k
   \<and> map_option updated_at (user_memories (update_team_info db uid new_team_info now) uid)
       = Some now"
  by (simp add: team_info_of_update_team_info)
     (simp add: update_team_info_def get_or_create_user_memory_def commit_memory_def
      split: option.splits)

section \<open>Memory entries written by the mutators\<close>

lemma add_memory_entry_at:
  "\<exists>e. memory_entries (add_memory_entry rt db uid category key val src conf tags md now)
          (uid, category, key) = Some e
       \<and> entry_value e = val \<and> entry_confidence e = conf \<and> entry_updated_at e = now"
  by (simp add: add_memory_entry_def Let_def split: option.splits)

lemma add_memory_entry_value:
  "\<exists>e. memory_entries (add_memory_entry rt db uid category key val src conf tags md now)
          (uid, category, key) = Some e
       \<and> entry_value e = val"
  using add_memory_entry_at[of rt db uid category key val src conf tags md now] by blast

lemma add_memory_entry_other:
  "k' \<noteq> (uid, category, key) \<Longrightarrow>
     memory_entries (add_memory_entry rt db uid category key val src conf tags md now) k'
       = memory_entries db k'"
  by (simp add: add_memory_entry_def Let_def split: option.splits)

lemma add_memory_entry_user_memories:
  "user_memories (add_memory_entry rt db uid category key val src conf tags md now)
     = user_memories db"
  by (simp add: add_memory_entry_def Let_def split: option.splits)

lemma get_or_create_user_memory_entries:
  "memory_entries (snd (get_or_create_user_memory db uid now)) = memory_entries db"
  by (simp add: get_or_create_user_memory_def split: option.splits)

lemma commit_memory_entries: "memory_entries (commit_memory db uid m) = memory_entries db"
  by (simp add: commit_memory_def)

lemma employee_entries_foldl:
  assumes "distinct (map fst facts)" and "(k, v) \<in> set facts"
  shows "\<exists>e. memory_entries
                (foldl (\<lambda>d kv. add_memory_entry rt d uid ''employee'' (fst kv)
                                   (py_str rt (snd kv)) None 100
                                   (Some [''employee'', ''profile'']) None now) db facts)
                (uid, ''employee'', k) = Some e
             \<and> entry_value e = py_str rt v"
  using assms
proof (induction facts rule: rev_induct)
  case Nil
  then show ?case by simp
next
  case (snoc x xs)
  show ?case
  proof (cases "(k, v) = x")
    case True
    then show ?thesis
      by (auto simp: add_memory_entry_value)
  next
    case False
    with snoc.prems have in_xs: "(k, v) \<in> set xs" and d: "distinct (map fst xs)" by auto
    from snoc.prems have "fst x \<notin> fst ` set xs" by simp
    moreover from in_xs have "k \<in> fst ` set xs" by force
    ultimately have "fst x \<noteq> k" by blast
    then have "(uid, ''employee'', k) \<noteq> (uid, ''employee'', fst x)" by simp
    from add_memory_entry_other[OF this] snoc.IH[OF d in_xs] show ?thesis by simp
  qed
qed

lemma memory_entries_add_frequent_topic:
  "memory_entries (add_frequent_topic db uid topic now) = memory_entries db"
  by (simp add: add_frequent_topic_def get_or_create_user_memory_def commit_memory_def
      split: option.splits)

lemma memory_entries_complete_project:
  "memory_entries (complete_project rt db uid project_name completion_data now)
     = memory_entries db"
  by (simp add: complete_project_def get_or_create_user_memory_def commit_memory_def
      Let_def split: option.splits)

lemma memory_entries_add_conversation_summary:
  "memory_entries (add_conversation_summary rt db uid topic resolution extra now)
     = memory_entries db"
  by (simp add: add_conversation_summary_def get_or_create_user_memory_def commit_memory_def
      Let_def split: option.splits)

lemma memory_entries_update_domain_expertise:
  "update_domain_expertise rt db uid expertise now = Inr db' \<Longrightarrow>
     memory_entries db' = memory_entries db"
  by (auto simp: update_domain_expertise_def get_or_create_user_memory_def commit_memory_def
      Let_def split: option.splits sum.splits)

text \<open>
  C7, as stated, fails: \<^verbatim>\<open>add_frequent_topic\<close> on a database without memory entries
  leaves it without memory entries, and so do \<^verbatim>\<open>complete_project\<close>,
  \<^verbatim>\<open>add_conversation_summary\<close> and \<^verbatim>\<open>update_domain_expertise\<close>.
\<close>

theorem mutators_without_memory_entry_counterexample:
  "memory_entries (add_frequent_topic empty_database ''u1'' ''rating'' 1) = Map.empty
   \<and> memory_entries
        (add_conversation_summary example_runtime empty_database ''u1'' ''rating''
           ''fixed'' None 1) = Map.empty
   \<and> memory_entries
        (complete_project example_runtime
           (add_frequent_topic empty_database ''u1'' ''rating'' 1) ''u1'' ''migration'' [] 2)
       = Map.empty
   \<and> map_sum id memory_entries
        (update_domain_expertise example_runtime empty_database ''u1''
           [(''states_worked'', JList [JStr ''CA''])] 1) = Inr Map.empty"
  by (simp add: memory_entries_add_frequent_topic memory_entries_add_conversation_summary
      memory_entries_complete_project update_domain_expertise_def commit_memory_def
      get_or_create_user_memory_def empty_database_def new_user_memory_def or_empty_def
      assign_empty_if_falsy_def assign_def loaded_def)

text \<open>
  C7, amended: of the mutators of the profile store, \<^verbatim>\<open>update_employee_facts\<close> writes,
  for every fact of the patch, the memory entry keyed by the user, the category
  \<^verbatim>\<open>employee\<close> and the fact's key, with the text of the fact's value as its value, and
  \<^verbatim>\<open>add_active_project\<close> writes the memory entry keyed by the user, the category
  \<^verbatim>\<open>project\<close> and \<^verbatim>\<open>active_project_\<close> followed by the project's name, with the JSON text
  of the project as its value, creating the entry or updating the one that is there.
  \<^verbatim>\<open>complete_project\<close>, \<^verbatim>\<open>add_conversation_summary\<close>, \<^verbatim>\<open>update_domain_expertise\<close> and
  \<^verbatim>\<open>add_frequent_topic\<close> leave the table of memory entries as it is.
\<close>

theorem mutators_memory_entries:
  "(distinct (map fst facts) \<longrightarrow>
      (\<forall>(k, v) \<in> set facts.
          \<exists>e. memory_entries (update_employee_facts rt db uid facts now)
                 (uid, ''employee'', k) = Some e
             \<and> entry_value e = py_str rt v))
   \<and> (\<exists>e. memory_entries (add_active_project rt db uid project now)
              (uid, ''project'', ''active_project_'' @ py_str rt (dict_get project ''name''))
            = Some e
          \<and> entry_value e = json_dumps rt project)
   \<and> memory_entries (complete_project rt db uid project_name completion_data now)
       = memory_entries db
   \<and> memory_entries (add_conversation_summary rt db uid topic resolution extra now)
       = memory_entries db
   \<and> (\<forall>db'. update_domain_expertise rt db uid expertise now = Inr db' \<longrightarrow>
          memory_entries db' = memory_entries db)
   \<and> memory_entries (add_frequent_topic db uid topic now) = memory_entries db"
proof -
  have facts: "distinct (map fst facts) \<longrightarrow>
      (\<forall>(k, v) \<in> set facts.
          \<exists>e. memory_entries (update_employee_facts rt db uid facts now)
                 (uid, ''employee'', k) = Some e
             \<and> entry_value e = py_str rt v)"
    using employee_entries_foldl[of facts _ _ rt uid now]
    by (auto simp: update_employee_facts_def Let_def split: prod.splits)
  have project: "\<exists>e. memory_entries (add_active_project rt db uid project now)
              (uid, ''project'', ''active_project_'' @ py_str rt (dict_get project ''name''))
            = Some e
          \<and> entry_value e = json_dumps rt project"
    by (simp add: add_active_project_def Let_def add_memory_entry_value split: prod.splits)
  show ?thesis
    using facts project memory_entries_update_domain_expertise[of rt db uid expertise now]
    by (simp add: memory_entries_complete_project memory_entries_add_conversation_summary
        memory_entries_add_frequent_topic)
qed

theorem mutators_memory_entries_witness:
  "distinct (map fst [(''hire_date'', JStr ''2022-03-15'')])
   \<and> map_option entry_value
        (memory_entries
           (update_employee_facts example_runtime empty_database ''u1''
              [(''hire_date'', JStr ''2022-03-15'')] 1)
           (''u1'', ''employee'', ''hire_date'')) = Some ''2022-03-15''
   \<and> update_domain_expertise example_runtime empty_database ''u1''
        [(''states_worked'', JList [JStr ''CA''])] 1
      = Inr (commit_memory
               (snd (get_or_create_user_memory empty_database ''u1'' 1)) ''u1''
               ((new_user_memory 1)
                  \<lparr>domain_expertise := Some [(''states_worked'', JList [JStr ''CA''])]\<rparr>))
   \<and> memory_entries
        (commit_memory (snd (get_or_create_user_memory empty_database ''u1'' 1)) ''u1''
           ((new_user_memory 1)
              \<lparr>domain_expertise := Some [(''states_worked'', JList [JStr ''CA''])]\<rparr>))
      = memory_entries empty_database"
proof -
  have u: "update_domain_expertise example_runtime empty_database ''u1''
        [(''states_worked'', JList [JStr ''CA''])] 1
      = Inr (commit_memory
               (snd (get_or_create_user_memory empty_database ''u1'' 1)) ''u1''
               ((new_user_memory 1)
                  \<lparr>domain_expertise := Some [(''states_worked'', JList [JStr ''CA''])]\<rparr>))"
    by (simp add: update_domain_expertise_def get_or_create_user_memory_def
        empty_database_def new_user_memory_def or_empty_def assign_empty_if_falsy_def
        in_place_def assign_def loaded_def flush_def)
  show ?thesis
    using mutators_memory_entries[where facts = "[(''hire_date'', JStr ''2022-03-15'')]"
        and rt = example_runtime and db = empty_database and uid = "''u1''" and now = 1
        and expertise = "[(''states_worked'', JList [JStr ''CA''])]"] u
    by (auto simp: py_str_def)
qed

section \<open>Frequent topics\<close>

lemma or_empty_Some: "or_empty (Some xs) = xs"
  by (simp add: or_empty_def)

lemma flush_loaded: "flush (loaded v) = v"
  by (simp add: flush_def loaded_def)

lemma assign_empty_if_falsy_truthy:
  "or_empty col \<noteq> [] \<Longrightarrow> assign_empty_if_falsy (loaded col) = loaded col"
  by (simp add: assign_empty_if_falsy_def loaded_def)

lemma flush_append_topic:
  "or_empty (flush (append_topic (assign_empty_if_falsy (loaded col)) topic)) =
     (if or_empty col = [] then [topic]
      else if topic \<in> set (or_empty col) then or_empty col
      else if 20 \<le> length (or_empty col) then py_last_n 20 (or_empty col @ [topic])
      else or_empty col)"
proof (cases "or_empty col = []")
  case True
  then show ?thesis
    by (cases col)
       (simp_all add: append_topic_def assign_empty_if_falsy_def list_extend_def in_place_def
          assign_def loaded_def flush_def or_empty_def Let_def)
next
  case False
  let ?ts = "or_empty col"
  have a0: "assign_empty_if_falsy (loaded col) = loaded col"
    using False by (rule assign_empty_if_falsy_truthy)
  show ?thesis
  proof (cases "topic \<in> set ?ts")
    case True
    then have "append_topic (loaded col) topic = loaded col"
      by (simp add: append_topic_def loaded_def)
    with True False show ?thesis by (simp add: a0 flush_loaded)
  next
    case absent: False
    let ?appended = "\<lparr>stored = col, current = Some (?ts @ [topic]), committed = None\<rparr>"
    show ?thesis
    proof (cases "20 \<le> length ?ts")
      case True
      have ne: "py_last_n 20 (?ts @ [topic]) \<noteq> ?ts @ [topic]"
      proof
        assume "py_last_n 20 (?ts @ [topic]) = ?ts @ [topic]"
        then have "length (py_last_n 20 (?ts @ [topic])) = length (?ts @ [topic])" by simp
        with True show False by (simp add: py_last_n_def)
      qed
      have "append_topic (loaded col) topic =
              assign (Some (py_last_n 20 (?ts @ [topic]))) ?appended"
        using absent True
        by (simp add: append_topic_def list_extend_def in_place_def loaded_def Let_def
            or_empty_Some)
      then have "flush (append_topic (loaded col) topic) = Some (py_last_n 20 (?ts @ [topic]))"
        using ne by (simp add: assign_def flush_def)
      with False absent True show ?thesis by (simp add: a0 or_empty_Some)
    next
      case short: False
      have "append_topic (loaded col) topic = ?appended"
        using absent short
        by (simp add: append_topic_def list_extend_def in_place_def loaded_def Let_def
            or_empty_Some)
      then have "flush (append_topic (loaded col) topic) = col"
        by (simp add: flush_def)
      with False absent short show ?thesis by (simp add: a0)
    qed
  qed
qed

text \<open>
  What \<^verbatim>\<open>add_frequent_topic\<close> leaves in the stored list: the first topic of an empty
  list and the overflow of a list of 20 or more are written; a topic appended to a stored
  list of 1 to 19 topics is not.
\<close>

lemma topics_of_add_frequent_topic_other:
  "uid' \<noteq> uid \<Longrightarrow> topics_of (add_frequent_topic db uid' topic now) uid = topics_of db uid"
  by (simp add: add_frequent_topic_def get_or_create_user_memory_def commit_memory_def
      topics_of_def Let_def split: option.splits)

lemma topics_of_add_frequent_topic_same:
  "topics_of (add_frequent_topic db uid topic now) uid =
     (if topics_of db uid = [] then [topic]
      else if topic \<in> set (topics_of db uid) then topics_of db uid
      else if 20 \<le> length (topics_of db uid)
           then py_last_n 20 (topics_of db uid @ [topic])
      else topics_of db uid)"
proof (cases "user_memories db uid")
  case None
  have e: "or_empty (frequent_topics (new_user_memory now)) = []"
    by (simp add: new_user_memory_def or_empty_def)
  have "topics_of (add_frequent_topic db uid topic now) uid =
          or_empty (flush (append_topic
            (assign_empty_if_falsy (loaded (frequent_topics (new_user_memory now)))) topic))"
    using None
    by (simp add: add_frequent_topic_def get_or_create_user_memory_def commit_memory_def
        topics_of_def Let_def)
  also have "\<dots> = [topic]"
    by (simp add: flush_append_topic e)
  finally show ?thesis using None by (simp add: topics_of_def)
next
  case (Some m)
  have "topics_of (add_frequent_topic db uid topic now) uid =
          or_empty (flush (append_topic
            (assign_empty_if_falsy (loaded (frequent_topics m))) topic))"
    using Some
    by (simp add: add_frequent_topic_def get_or_create_user_memory_def commit_memory_def
        topics_of_def Let_def)
  moreover have "topics_of db uid = or_empty (frequent_topics m)"
    using Some by (simp add: topics_of_def)
  ultimately show ?thesis by (simp only: flush_append_topic)
qed

lemma topics_of_add_frequent_topic:
  "topics_of (add_frequent_topic db uid' topic now) uid =
     (if uid' \<noteq> uid then topics_of db uid
      else if topics_of db uid = [] then [topic]
      else if topic \<in> set (topics_of db uid) then topics_of db uid
      else if 20 \<le> length (topics_of db uid)
           then py_last_n 20 (topics_of db uid @ [topic])
      else topics_of db uid)"
proof (cases "uid' = uid")
  case True
  then show ?thesis by (simp only: topics_of_add_frequent_topic_same) simp
next
  case False
  then show ?thesis by (simp add: topics_of_add_frequent_topic_other)
qed

lemma topics_of_empty: "topics_of empty_database uid = []"
  by (simp add: topics_of_def empty_database_def)

lemma add_frequent_topic_append_not_stored:
  assumes "topics_of db uid \<noteq> []" and "length (topics_of db uid) < 20"
  shows "topics_of (add_frequent_topic db uid topic now) uid = topics_of db uid"
  using assms by (simp add: topics_of_add_frequent_topic)

text \<open>
  C3 fails on the code: it holds of the list the function computes and not of the list it
  stores. For a new
  user, \<^verbatim>\<open>add_frequent_topic\<close> with the topic \<^verbatim>\<open>rating\<close> stores the list with that
  topic; a second call with the new topic \<^verbatim>\<open>class codes\<close> appends to the loaded list in
  place, the column is not written, and the stored list is still the one topic, where the
  claim has the second topic appended.
\<close>

theorem add_frequent_topic_second_topic_lost:
  "topics_of (add_frequent_topic_calls empty_database [(''u1'', ''rating'', 1)]) ''u1''
     = [''rating'']
   \<and> topics_of (add_frequent_topic_calls empty_database
        [(''u1'', ''rating'', 1), (''u1'', ''class codes'', 2)]) ''u1''
     = [''rating'']
   \<and> topics_of (add_frequent_topic_calls empty_database
        [(''u1'', ''rating'', 1), (''u1'', ''class codes'', 2)]) ''u1''
     \<noteq> [''rating'', ''class codes'']"
  by (simp add: add_frequent_topic_calls_def topics_of_add_frequent_topic topics_of_empty)

section \<open>Active projects\<close>

lemma upsert_project_empty: "upsert_project [] project = [project]"
  by (simp add: upsert_project_def)

lemma flush_upsert_project:
  "or_empty (flush (in_place (\<lambda>x. Some (upsert_project (or_empty x) project))
                      (assign_empty_if_falsy (loaded col)))) =
     (if or_empty col = [] then [project] else or_empty col)"
  by (cases col)
     (auto simp: assign_empty_if_falsy_def in_place_def assign_def loaded_def flush_def
        or_empty_def upsert_project_empty)

text \<open>
  What \<^verbatim>\<open>add_active_project\<close> leaves in the stored list: the first project of an empty
  list is written; on a stored list that is not empty neither the update of an entry nor
  the appended project is.
\<close>

lemma projects_of_add_active_project_other:
  "uid' \<noteq> uid \<Longrightarrow>
     projects_of (add_active_project rt db uid' project now) uid = projects_of db uid"
  by (simp add: add_active_project_def add_memory_entry_user_memories Let_def
      get_or_create_user_memory_def commit_memory_def projects_of_def split: option.splits)

lemma projects_of_add_active_project_same:
  "projects_of (add_active_project rt db uid project now) uid =
     (if projects_of db uid = [] then [project] else projects_of db uid)"
proof (cases "user_memories db uid")
  case None
  have e: "or_empty (active_projects (new_user_memory now)) = []"
    by (simp add: new_user_memory_def or_empty_def)
  have "projects_of (add_active_project rt db uid project now) uid =
          or_empty (flush (in_place (\<lambda>x. Some (upsert_project (or_empty x) project))
            (assign_empty_if_falsy (loaded (active_projects (new_user_memory now))))))"
    using None
    by (simp add: add_active_project_def add_memory_entry_user_memories Let_def
        get_or_create_user_memory_def commit_memory_def projects_of_def)
  also have "\<dots> = [project]"
    by (simp add: flush_upsert_project e)
  finally show ?thesis using None by (simp add: projects_of_def)
next
  case (Some m)
  have "projects_of (add_active_project rt db uid project now) uid =
          or_empty (flush (in_place (\<lambda>x. Some (upsert_project (or_empty x) project))
            (assign_empty_if_falsy (loaded (active_projects m)))))"
    using Some
    by (simp add: add_active_project_def add_memory_entry_user_memories Let_def
        get_or_create_user_memory_def commit_memory_def projects_of_def)
  moreover have "projects_of db uid = or_empty (active_projects m)"
    using Some by (simp add: projects_of_def)
  ultimately show ?thesis by (simp only: flush_upsert_project)
qed

lemma projects_of_add_active_project:
  "projects_of (add_active_project rt db uid' project now) uid =
     (if uid' \<noteq> uid then projects_of db uid
      else if projects_of db uid = [] then [project]
      else projects_of db uid)"
proof (cases "uid' = uid")
  case True
  then show ?thesis by (simp only: projects_of_add_active_project_same) simp
next
  case False
  then show ?thesis by (simp add: projects_of_add_active_project_other)
qed

lemma projects_of_empty: "projects_of empty_database uid = []"
  by (simp add: projects_of_def empty_database_def)

text \<open>
  C4 fails on the code: it holds of the list the function computes and not of the list it
  stores. For a new
  user, \<^verbatim>\<open>add_active_project\<close> with the project \<^verbatim>\<open>WC Migration\<close> of status
  \<^verbatim>\<open>planned\<close> stores that project; a second call with the same name and the status
  \<^verbatim>\<open>in_progress\<close> updates the loaded entry in place, the column is not written, and the
  stored entry keeps the status of the first call, where the claim gives the fields of the
  second call precedence. A call with a project of a name not present, on that list, does
  not store the project either, where the claim appends it.
\<close>

theorem add_active_project_second_call_lost:
  "projects_of
     (add_active_project rt
        (add_active_project rt empty_database ''u1''
           [(''name'', JStr ''WC Migration''), (''status'', JStr ''planned'')] 1)
        ''u1'' [(''name'', JStr ''WC Migration''), (''status'', JStr ''in_progress'')] 2)
     ''u1''
   = [[(''name'', JStr ''WC Migration''), (''status'', JStr ''planned'')]]
   \<and> map (\<lambda>p. dict_get p ''status'')
       (projects_of
          (add_active_project rt
             (add_active_project rt empty_database ''u1''
                [(''name'', JStr ''WC Migration''), (''status'', JStr ''planned'')] 1)
             ''u1'' [(''name'', JStr ''WC Migration''), (''status'', JStr ''in_progress'')] 2)
          ''u1'')
     \<noteq> [JStr ''in_progress'']
   \<and> projects_of
       (add_active_project rt
          (add_active_project rt empty_database ''u1''
             [(''name'', JStr ''WC Migration''), (''status'', JStr ''planned'')] 1)
          ''u1'' [(''name'', JStr ''CA Implementation'')] 2)
       ''u1''
     = [[(''name'', JStr ''WC Migration''), (''status'', JStr ''planned'')]]"
  by (simp add: projects_of_add_active_project projects_of_empty dict_get_def)

section \<open>Domain expertise\<close>

text \<open>
  What \<^verbatim>\<open>update_domain_expertise\<close> leaves in the stored dictionary when the loop does not
  raise: the merge into an empty dictionary is written; on a stored dictionary that is not
  empty no item assignment of the loop is.
\<close>

lemma current_assign_empty_if_falsy:
  "or_empty (current (assign_empty_if_falsy (loaded col))) = or_empty col"
  by (cases col) (auto simp: assign_empty_if_falsy_def assign_def loaded_def or_empty_def)

lemma flush_item_assignments:
  "or_empty (flush (in_place (\<lambda>x. Some de) (assign_empty_if_falsy (loaded col)))) =
     (if or_empty col = [] then de else or_empty col)"
  by (cases col)
     (auto simp: assign_empty_if_falsy_def in_place_def assign_def loaded_def flush_def
        or_empty_def)

lemma expertise_of_get_or_create:
  "or_empty (domain_expertise (fst (get_or_create_user_memory db uid now)))
     = expertise_of db uid"
  by (simp add: get_or_create_user_memory_def expertise_of_def new_user_memory_def
      or_empty_def split: option.splits)

lemma update_domain_expertise_merge:
  "update_domain_expertise rt db uid expertise now =
     (case merge_expertise rt (expertise_of db uid) expertise of
        Inl e \<Rightarrow> Inl e
      | Inr de \<Rightarrow>
          Inr (commit_memory (snd (get_or_create_user_memory db uid now)) uid
                 ((fst (get_or_create_user_memory db uid now))
                    \<lparr>domain_expertise :=
                       flush (in_place (\<lambda>x. Some de)
                         (assign_empty_if_falsy (loaded (domain_expertise
                            (fst (get_or_create_user_memory db uid now)))))),
                     updated_at := now\<rparr>)))"
proof -
  obtain memory db1 where g: "get_or_create_user_memory db uid now = (memory, db1)"
    by (cases "get_or_create_user_memory db uid now")
  have e: "expertise_of db uid = or_empty (domain_expertise memory)"
    using expertise_of_get_or_create[of db uid now] g by simp
  show ?thesis
    by (simp add: update_domain_expertise_def Let_def g current_assign_empty_if_falsy e
        split: sum.splits)
qed

lemma expertise_of_commit_memory:
  "expertise_of (commit_memory db uid m) uid = or_empty (domain_expertise m)"
  by (simp add: expertise_of_def commit_memory_def)

lemma expertise_of_update_domain_expertise:
  assumes "update_domain_expertise rt db uid expertise now = Inr db'"
  shows "\<exists>de. merge_expertise rt (expertise_of db uid) expertise = Inr de
            \<and> expertise_of db' uid =
                (if expertise_of db uid = [] then de else expertise_of db uid)"
proof (cases "merge_expertise rt (expertise_of db uid) expertise")
  case (Inl e)
  with assms show ?thesis by (simp add: update_domain_expertise_merge)
next
  case (Inr de)
  with assms have "expertise_of db' uid =
      or_empty (flush (in_place (\<lambda>x. Some de)
        (assign_empty_if_falsy (loaded (domain_expertise
           (fst (get_or_create_user_memory db uid now)))))))"
    by (auto simp: update_domain_expertise_merge expertise_of_commit_memory)
  with Inr show ?thesis
    by (simp add: flush_item_assignments expertise_of_get_or_create)
qed

lemma expertise_of_empty: "expertise_of empty_database uid = []"
  by (simp add: expertise_of_def empty_database_def)

text \<open>
  C5 fails on the code: it holds of the dictionary the loop computes and not of the
  dictionary that is stored.
  For a new user and every order in which the runtime lists a set, the patch
  \<^verbatim>\<open>{states_worked: ["CA"]}\<close> is stored; the patch \<^verbatim>\<open>{states_worked: ["CA", "NY"]}\<close>
  that follows succeeds, assigns the union to the key in place, the column is not written,
  and the stored list is still \<^verbatim>\<open>["CA"]\<close>, where the claim yields \<^verbatim>\<open>CA\<close> and \<^verbatim>\<open>NY\<close>.
\<close>

theorem update_domain_expertise_union_lost:
  "\<exists>db1 db2.
      update_domain_expertise rt empty_database ''u1''
        [(''states_worked'', JList [JStr ''CA''])] 1 = Inr db1
    \<and> expertise_of db1 ''u1'' = [(''states_worked'', JList [JStr ''CA''])]
    \<and> update_domain_expertise rt db1 ''u1''
        [(''states_worked'', JList [JStr ''CA'', JStr ''NY''])] 2 = Inr db2
    \<and> expertise_of db2 ''u1'' = [(''states_worked'', JList [JStr ''CA''])]
    \<and> JStr ''NY'' \<notin> set (case dict_get (expertise_of db2 ''u1'') ''states_worked'' of
                              JList xs \<Rightarrow> xs | _ \<Rightarrow> [])"
proof -
  let ?ca = "[(''states_worked'', JList [JStr ''CA''])]"
  let ?db1 = "commit_memory (snd (get_or_create_user_memory empty_database ''u1'' 1)) ''u1''
                ((new_user_memory 1)\<lparr>domain_expertise := Some ?ca\<rparr>)"
  let ?db2 = "commit_memory ?db1 ''u1''
                ((new_user_memory 1)\<lparr>domain_expertise := Some ?ca, updated_at := 2\<rparr>)"
  have u1: "update_domain_expertise rt empty_database ''u1'' ?ca 1 = Inr ?db1"
    by (simp add: update_domain_expertise_def get_or_create_user_memory_def
        empty_database_def new_user_memory_def assign_empty_if_falsy_def in_place_def
        assign_def loaded_def flush_def or_empty_def)
  have e1: "expertise_of ?db1 ''u1'' = ?ca"
    by (simp add: expertise_of_def commit_memory_def or_empty_def)
  have u2: "update_domain_expertise rt ?db1 ''u1''
              [(''states_worked'', JList [JStr ''CA'', JStr ''NY''])] 2 = Inr ?db2"
    by (simp add: update_domain_expertise_def get_or_create_user_memory_def commit_memory_def
        new_user_memory_def assign_empty_if_falsy_def in_place_def assign_def loaded_def
        flush_def or_empty_def)
  have e2: "expertise_of ?db2 ''u1'' = ?ca"
    by (simp add: expertise_of_def commit_memory_def or_empty_def)
  from u1 e1 u2 e2 show ?thesis
    by (intro exI[of _ ?db1] exI[of _ ?db2]) (simp add: dict_get_def)
qed

section \<open>Linking a conversation to a context\<close>

lemma flush_extend_if_given:
  "or_empty (flush (extend_if_given col given)) =
     (if or_empty given \<noteq> [] \<and> or_empty col = [] then or_empty given else or_empty col)"
  by (cases col)
     (auto simp: extend_if_given_def list_extend_def assign_empty_if_falsy_def in_place_def
        assign_def loaded_def flush_def or_empty_def)

lemma flush_append_id:
  "or_empty (flush (if cid \<notin> set (or_empty (current (assign_empty_if_falsy (loaded col))))
                    then list_extend [cid] (assign_empty_if_falsy (loaded col))
                    else assign_empty_if_falsy (loaded col))) =
     (if or_empty col = [] then [cid] else or_empty col)"
  by (cases col)
     (auto simp: list_extend_def assign_empty_if_falsy_def in_place_def assign_def
        loaded_def flush_def or_empty_def)

lemma context_after_add_conversation:
  "conversation_contexts
     (add_conversation_to_context db uid ck cid f d a now) (uid, ck) =
   Some ((fst (get_or_create_conversation_context db uid ck ''project'' None now))
     \<lparr>conversation_ids := flush
        (if cid \<notin> set (or_empty (current (assign_empty_if_falsy (loaded (conversation_ids
               (fst (get_or_create_conversation_context db uid ck ''project'' None now)))))))
         then list_extend [cid] (assign_empty_if_falsy (loaded (conversation_ids
               (fst (get_or_create_conversation_context db uid ck ''project'' None now)))))
         else assign_empty_if_falsy (loaded (conversation_ids
               (fst (get_or_create_conversation_context db uid ck ''project'' None now))))),
      key_facts := flush (extend_if_given
        (key_facts (fst (get_or_create_conversation_context db uid ck ''project'' None now))) f),
      decisions_made := flush (extend_if_given
        (decisions_made (fst (get_or_create_conversation_context db uid ck
                                ''project'' None now))) d),
      action_items := flush (extend_if_given
        (action_items (fst (get_or_create_conversation_context db uid ck
                              ''project'' None now))) a),
      last_conversation_at := Some now,
      context_updated_at := now\<rparr>)"
  by (simp add: add_conversation_to_context_def Let_def split: prod.splits)

lemma get_or_create_context_columns:
  "or_empty (conversation_ids
       (fst (get_or_create_conversation_context db uid ck ctype ttl now)))
     = context_column conversation_ids db uid ck"
  "or_empty (key_facts
       (fst (get_or_create_conversation_context db uid ck ctype ttl now)))
     = context_column key_facts db uid ck"
  "or_empty (decisions_made
       (fst (get_or_create_conversation_context db uid ck ctype ttl now)))
     = context_column decisions_made db uid ck"
  "or_empty (action_items
       (fst (get_or_create_conversation_context db uid ck ctype ttl now)))
     = context_column action_items db uid ck"
  by (simp_all add: get_or_create_conversation_context_def context_column_def
      new_conversation_context_def or_empty_def split: option.splits)

text \<open>
  What \<^verbatim>\<open>add_conversation_to_context\<close> leaves in the stored columns: the first id of an
  empty list of ids and the first items of an empty list of facts, decisions or action
  items are written; what is appended to a stored list that is not empty is not. The time
  of the last conversation is assigned and written on every call.
\<close>

lemma ids_after_add_conversation:
  "context_column conversation_ids
     (add_conversation_to_context db uid ck cid f d a now) uid ck =
   (if context_column conversation_ids db uid ck = [] then [cid]
    else context_column conversation_ids db uid ck)"
  by (simp add: context_column_def[of _ "add_conversation_to_context db uid ck cid f d a now"]
      context_after_add_conversation flush_append_id get_or_create_context_columns)

lemma facts_after_add_conversation:
  "context_column key_facts
     (add_conversation_to_context db uid ck cid f d a now) uid ck =
   (if or_empty f \<noteq> [] \<and> context_column key_facts db uid ck = [] then or_empty f
    else context_column key_facts db uid ck)"
  "context_column decisions_made
     (add_conversation_to_context db uid ck cid f d a now) uid ck =
   (if or_empty d \<noteq> [] \<and> context_column decisions_made db uid ck = [] then or_empty d
    else context_column decisions_made db uid ck)"
  "context_column action_items
     (add_conversation_to_context db uid ck cid f d a now) uid ck =
   (if or_empty a \<noteq> [] \<and> context_column action_items db uid ck = [] then or_empty a
    else context_column action_items db uid ck)"
  by (simp_all add: context_column_def[of _ "add_conversation_to_context db uid ck cid f d a now"]
      context_after_add_conversation flush_extend_if_given get_or_create_context_columns)

lemma last_conversation_at_after_add_conversation:
  "context_last_conversation_at
     (add_conversation_to_context db uid ck cid f d a now) uid ck = Some now"
  by (simp add: context_last_conversation_at_def context_after_add_conversation)

lemma context_column_empty: "context_column col empty_database uid ck = []"
  by (simp add: context_column_def empty_database_def)

text \<open>
  C8 fails on the code for the accumulated content. For a new context, two calls of
  \<^verbatim>\<open>add_conversation_to_context\<close> with the conversation \<^verbatim>\<open>conv-1\<close> and the fact
  \<^verbatim>\<open>uses Sapiens\<close> leave the id once and the time of the second call, as the claim has
  it; the second call extends the loaded list of facts in place, the column is not
  written, and the stored facts hold one copy of the fact, where the claim has two. For
  the same reason a second conversation \<^verbatim>\<open>conv-2\<close> is not added to the stored ids.
\<close>

theorem add_conversation_to_context_facts_lost:
  "context_column conversation_ids
     (add_conversation_to_context
        (add_conversation_to_context empty_database ''u1'' ''WC_Migration'' ''conv-1''
           (Some [''uses Sapiens'']) None None 1)
        ''u1'' ''WC_Migration'' ''conv-1'' (Some [''uses Sapiens'']) None None 2)
     ''u1'' ''WC_Migration'' = [''conv-1'']
   \<and> context_last_conversation_at
       (add_conversation_to_context
          (add_conversation_to_context empty_database ''u1'' ''WC_Migration'' ''conv-1''
             (Some [''uses Sapiens'']) None None 1)
          ''u1'' ''WC_Migration'' ''conv-1'' (Some [''uses Sapiens'']) None None 2)
       ''u1'' ''WC_Migration'' = Some 2
   \<and> context_column key_facts
       (add_conversation_to_context
          (add_conversation_to_context empty_database ''u1'' ''WC_Migration'' ''conv-1''
             (Some [''uses Sapiens'']) None None 1)
          ''u1'' ''WC_Migration'' ''conv-1'' (Some [''uses Sapiens'']) None None 2)
       ''u1'' ''WC_Migration'' = [''uses Sapiens'']
   \<and> context_column key_facts
       (add_conversation_to_context
          (add_conversation_to_context empty_database ''u1'' ''WC_Migration'' ''conv-1''
             (Some [''uses Sapiens'']) None None 1)
          ''u1'' ''WC_Migration'' ''conv-1'' (Some [''uses Sapiens'']) None None 2)
       ''u1'' ''WC_Migration'' \<noteq> [''uses Sapiens'', ''uses Sapiens'']
   \<and> context_column conversation_ids
       (add_conversation_to_context
          (add_conversation_to_context empty_database ''u1'' ''WC_Migration'' ''conv-1''
             (Some [''uses Sapiens'']) None None 1)
          ''u1'' ''WC_Migration'' ''conv-2'' None None None 2)
       ''u1'' ''WC_Migration'' = [''conv-1'']"
  by (simp add: ids_after_add_conversation facts_after_add_conversation
      last_conversation_at_after_add_conversation context_column_empty or_empty_def)

section \<open>The path between two entities\<close>

text \<open>
  The handling after the query is as the claim has it: for a query whose hop range is
  written with literals, a graph that has no path in the range gives no record and the
  result is \<open>None\<close>, not an error.
\<close>

lemma run_path_query_literal_absent:
  assumes "shortest_paths g source_id target_id lo hi = []"
  shows "run_path_query g \<lparr>min_hops = HopLiteral lo, max_hops = HopLiteral hi\<rparr>
           source_id target_id max_depth = Inr None"
  using assms by (simp add: run_path_query_def session_run_def single_def)

text \<open>
  C9 fails on the code. The query that \<^verbatim>\<open>get_entity_path\<close> sends writes the upper hop
  bound as the parameter \<^verbatim>\<open>$max_depth\<close>; the store rejects the text, and since the
  function has no \<^verbatim>\<open>try\<close> the error is what the caller gets, for every graph, every
  pair of entity ids and every depth. On a graph without any path, for the entities
  \<^verbatim>\<open>X\<close> and \<^verbatim>\<open>Y\<close> and the depth 3, the result is the error and not the absent result
  of the claim, which the same lines give when the bound is written as the literal 3.
\<close>

theorem get_entity_path_raises:
  "get_entity_path g source_id target_id max_depth = Inl CypherSyntaxError
   \<and> get_entity_path unconnected_graph ''X'' ''Y'' 3 = Inl CypherSyntaxError
   \<and> get_entity_path unconnected_graph ''X'' ''Y'' 3 \<noteq> Inr None
   \<and> run_path_query unconnected_graph \<lparr>min_hops = HopLiteral 1, max_hops = HopLiteral 3\<rparr>
        ''X'' ''Y'' 3 = Inr None"
  by (simp add: get_entity_path_def run_path_query_def session_run_def entity_path_query_def
      single_def unconnected_graph_def)

end
